theory Spec2Isabelle
  imports Main "HOL-Library.Word"
begin

section \<open>The USB Type-C port service (usb/usb/Usb.cpp)\<close>

text \<open>
  A shallow embedding of the port service: the role switch with its bounded partner wait,
  the port status snapshot with its sub-queries, the caller-facing operations and the
  kernel event dispatcher. Files of the host are a store from paths to contents; every
  callback invocation is appended to a list, so that what a subscriber receives can be
  stated; an access that C++ leaves undefined (an index outside a vector, a union read
  through the wrong tag, an exception nobody catches) ends the run with a fault.
\<close>

subsection \<open>The interface types\<close>

text \<open>
  The enumerations and the port status structure of the \<^verbatim>\<open>android.hardware.usb\<close> interface.
  C++ scopes the enumerators by their type; here every constructor carries the name of
  its enumeration.
\<close>

datatype Status = SUCCESS | ERROR | INVALID_ARGUMENT | UNRECOGNIZED_ROLE | NOT_SUPPORTED

datatype PortPowerRole = PortPowerRole_NONE | PortPowerRole_SOURCE | PortPowerRole_SINK

datatype PortDataRole = PortDataRole_NONE | PortDataRole_HOST | PortDataRole_DEVICE

datatype PortMode =
  PortMode_NONE | PortMode_UFP | PortMode_DFP | PortMode_DRP
  | PortMode_AUDIO_ACCESSORY | PortMode_DEBUG_ACCESSORY

datatype ContaminantProtectionMode =
  ContaminantProtectionMode_NONE | ContaminantProtectionMode_FORCE_SINK
  | ContaminantProtectionMode_FORCE_SOURCE | ContaminantProtectionMode_FORCE_DISABLE

datatype ContaminantProtectionStatus =
  ContaminantProtectionStatus_NONE | ContaminantProtectionStatus_FORCE_SINK
  | ContaminantProtectionStatus_FORCE_SOURCE | ContaminantProtectionStatus_FORCE_DISABLE
  | ContaminantProtectionStatus_DISABLED

datatype ContaminantDetectionStatus =
  ContaminantDetectionStatus_NOT_SUPPORTED | ContaminantDetectionStatus_DISABLED
  | ContaminantDetectionStatus_NOT_DETECTED | ContaminantDetectionStatus_DETECTED

datatype UsbDataStatus =
  UsbDataStatus_UNKNOWN | UsbDataStatus_ENABLED | UsbDataStatus_DISABLED_OVERHEAT
  | UsbDataStatus_DISABLED_CONTAMINANT | UsbDataStatus_DISABLED_DOCK
  | UsbDataStatus_DISABLED_FORCE | UsbDataStatus_DISABLED_DEBUG
  | UsbDataStatus_DISABLED_DOCK_HOST_MODE | UsbDataStatus_DISABLED_DOCK_DEVICE_MODE

datatype PowerBrickStatus =
  PowerBrickStatus_UNKNOWN | PowerBrickStatus_CONNECTED | PowerBrickStatus_NOT_CONNECTED

datatype ComplianceWarning =
  ComplianceWarning_OTHER | ComplianceWarning_DEBUG_ACCESSORY | ComplianceWarning_BC_1_2
  | ComplianceWarning_MISSING_RP | ComplianceWarning_INPUT_POWER_LIMITED
  | ComplianceWarning_MISSING_DATA_LINES | ComplianceWarning_ENUMERATION_FAIL
  | ComplianceWarning_FLAKY_CONNECTION | ComplianceWarning_UNRELIABLE_IO

text \<open>
  \<^verbatim>\<open>PortRole\<close> is a union of the three role kinds; \<^verbatim>\<open>getTag\<close> tells which one it holds.
\<close>

datatype PortRole = powerRole PortPowerRole | dataRole PortDataRole | mode PortMode

datatype Tag = Tag_powerRole | Tag_dataRole | Tag_mode

fun getTag :: "PortRole \<Rightarrow> Tag" where
  "getTag (powerRole _) = Tag_powerRole"
| "getTag (dataRole _) = Tag_dataRole"
| "getTag (mode _) = Tag_mode"

record PortStatus =
  portName :: string
  currentDataRole :: PortDataRole
  currentPowerRole :: PortPowerRole
  currentMode :: PortMode
  canChangeMode :: bool
  canChangeDataRole :: bool
  canChangePowerRole :: bool
  supportedModes :: "PortMode list"
  supportedContaminantProtectionModes :: "ContaminantProtectionMode list"
  supportsEnableContaminantPresenceProtection :: bool
  contaminantProtectionStatus :: ContaminantProtectionStatus
  supportsEnableContaminantPresenceDetection :: bool
  contaminantDetectionStatus :: ContaminantDetectionStatus
  usbDataStatus :: "UsbDataStatus list"
  powerTransferLimited :: bool
  powerBrickStatus :: PowerBrickStatus
  supportsComplianceWarnings :: bool
  complianceWarnings :: "ComplianceWarning list"

text \<open>The value a vector's \<^verbatim>\<open>resize\<close> gives a new element: the interface's field defaults.\<close>

definition PortStatus_default :: PortStatus where
  "PortStatus_default =
     \<lparr> portName = [],
       currentDataRole = PortDataRole_NONE,
       currentPowerRole = PortPowerRole_NONE,
       currentMode = PortMode_NONE,
       canChangeMode = False,
       canChangeDataRole = False,
       canChangePowerRole = False,
       supportedModes = [],
       supportedContaminantProtectionModes = [],
       supportsEnableContaminantPresenceProtection = False,
       contaminantProtectionStatus = ContaminantProtectionStatus_NONE,
       supportsEnableContaminantPresenceDetection = False,
       contaminantDetectionStatus = ContaminantDetectionStatus_NOT_SUPPORTED,
       usbDataStatus = [],
       powerTransferLimited = False,
       powerBrickStatus = PowerBrickStatus_UNKNOWN,
       supportsComplianceWarnings = False,
       complianceWarnings = [] \<rparr>"

text \<open>
  The calls the service makes on its callback. A transaction identifier is an
  \<^verbatim>\<open>int64_t\<close>.
\<close>

type_synonym int64_t = "64 word"

datatype notification =
  notifyPortStatusChange "PortStatus list" Status
  | notifyRoleSwitchStatus string PortRole Status int64_t
  | notifyEnableUsbDataStatus string bool Status int64_t
  | notifyEnableUsbDataWhileDockedStatus string Status int64_t
  | notifyResetUsbPortStatus string Status int64_t
  | notifyLimitPowerTransferStatus string bool Status int64_t
  | notifyContaminantEnabledStatus string bool Status int64_t
  | notifyQueryPortStatus string Status int64_t

subsection \<open>Strings\<close>

text \<open>
  The string functions of the C and C++ libraries, as far as the service uses them.
  A \<^verbatim>\<open>std::string\<close> is a list of bytes; \<^verbatim>\<open>c_str\<close> read as a C string ends at the
  first NUL byte.
\<close>

definition NUL :: char where
  "NUL = CHR 0x00"

definition c_str :: "string \<Rightarrow> string" where
  "c_str s = takeWhile (\<lambda>c. c \<noteq> NUL) s"

definition isspace :: "char \<Rightarrow> bool" where
  "isspace c = (c \<in> set [CHR '' '', CHR 0x09, CHR 0x0A, CHR 0x0B, CHR 0x0C, CHR 0x0D])"

text \<open>\<^verbatim>\<open>android::base::Trim\<close>: the string without leading and trailing white space.\<close>

definition Trim :: "string \<Rightarrow> string" where
  "Trim s = rev (dropWhile isspace (rev (dropWhile isspace s)))"

text \<open>\<^verbatim>\<open>std::string::find\<close> of one character: the first position, or \<^verbatim>\<open>npos\<close>.\<close>

definition find_char :: "char \<Rightarrow> string \<Rightarrow> nat option" where
  "find_char c s = (if c \<in> set s then Some (length (takeWhile (\<lambda>d. d \<noteq> c) s)) else None)"

text \<open>
  \<^verbatim>\<open>std::string::substr(pos, count)\<close> for \<^verbatim>\<open>pos\<close> within the string: at most
  \<^verbatim>\<open>count\<close> characters from \<^verbatim>\<open>pos\<close> on.
\<close>

definition substr :: "string \<Rightarrow> nat \<Rightarrow> nat \<Rightarrow> string" where
  "substr s pos count = take count (drop pos s)"

text \<open>
  \<^verbatim>\<open>extractRole\<close>. The count \<^verbatim>\<open>last - first - 1\<close> is computed in \<^verbatim>\<open>size_t\<close>
  (64 bits): when the first \<^verbatim>\<open>]\<close> stands before the first \<^verbatim>\<open>[\<close> it wraps around to a
  count larger than any string.
\<close>

definition extractRole :: "string \<Rightarrow> string" where
  "extractRole roleName =
     (case (find_char CHR ''['' roleName, find_char CHR '']'' roleName) of
        (Some first_pos, Some last_pos) \<Rightarrow>
          substr roleName (first_pos + 1) ((last_pos + 2 ^ 64 - first_pos - 1) mod 2 ^ 64)
      | _ \<Rightarrow> roleName)"

text \<open>\<^verbatim>\<open>strncmp(s, k, strlen(k)) == 0\<close>: the C string \<^verbatim>\<open>s\<close> starts with \<^verbatim>\<open>k\<close>.\<close>

definition starts_with :: "string \<Rightarrow> string \<Rightarrow> bool" where
  "starts_with s k = (take (length k) (c_str s) = k)"

text \<open>\<^verbatim>\<open>strstr\<close> and \<^verbatim>\<open>std::string::find\<close> of a string, as a test: does it occur.\<close>

fun occurs_in :: "string \<Rightarrow> string \<Rightarrow> bool" where
  "occurs_in k [] = (k = [])"
| "occurs_in k (c # cs) = (take (length k) (c # cs) = k \<or> occurs_in k cs)"

text \<open>
  \<^verbatim>\<open>android::base::Tokenize\<close>: the maximal runs of characters that are not delimiters,
  in order; no token is empty.
\<close>

function Tokenize :: "string \<Rightarrow> string \<Rightarrow> string list" where
  "Tokenize s delimiters =
     (let base = dropWhile (\<lambda>c. c \<in> set delimiters) s
      in if base = [] then []
         else takeWhile (\<lambda>c. c \<notin> set delimiters) base
              # Tokenize (dropWhile (\<lambda>c. c \<notin> set delimiters) base) delimiters)"
  by pat_completeness auto
termination
proof (relation "measure (\<lambda>(s, d). length s)")
  show "wf (measure (\<lambda>(s, d). length s))" by simp
next
  fix s delimiters :: string and base
  assume b: "base = dropWhile (\<lambda>c. c \<in> set delimiters) s" and ne: "base \<noteq> []"
  from ne obtain x xs where bx: "base = x # xs" by (cases base) auto
  with b have "x \<notin> set delimiters"
    by (metis hd_dropWhile list.sel(1) ne)
  then have "length (dropWhile (\<lambda>c. c \<notin> set delimiters) base) < length base"
    using bx by (simp add: le_imp_less_Suc length_dropWhile_le)
  moreover have "length base \<le> length s"
    using b by (simp add: length_dropWhile_le)
  ultimately show "((dropWhile (\<lambda>c. c \<notin> set delimiters) base, delimiters), (s, delimiters))
      \<in> measure (\<lambda>(s, d). length s)"
    by simp
qed

declare Tokenize.simps [simp del]

text \<open>
  \<^verbatim>\<open>std::strtok(name, "-")\<close>, first call: the first run of characters other than the
  delimiter.
\<close>

definition strtok :: "string \<Rightarrow> char \<Rightarrow> string" where
  "strtok s d = takeWhile (\<lambda>c. c \<noteq> d) (dropWhile (\<lambda>c. c = d) s)"

text \<open>
  \<^verbatim>\<open>std::stoi\<close>: optional white space, an optional sign, then decimal digits, as many
  as there are. It throws when there is no digit or the number does not fit an
  \<^verbatim>\<open>int\<close>; the service catches nothing, so \<open>None\<close> ends the process.
\<close>

definition isdigit :: "char \<Rightarrow> bool" where
  "isdigit c = (48 \<le> (of_char c :: nat) \<and> (of_char c :: nat) \<le> 57)"

definition digits_val :: "string \<Rightarrow> int" where
  "digits_val ds = foldl (\<lambda>a c. 10 * a + (int (of_char c) - 48)) 0 ds"

definition stoi :: "string \<Rightarrow> int option" where
  "stoi s =
     (let s1 = dropWhile isspace s;
          neg = (s1 \<noteq> [] \<and> hd s1 = CHR ''-'');
          s2 = (if s1 \<noteq> [] \<and> (hd s1 = CHR ''-'' \<or> hd s1 = CHR ''+'') then tl s1 else s1);
          ds = takeWhile isdigit s2;
          v = (if neg then - digits_val ds else digits_val ds)
      in if ds = [] then None
         else if v < - (2 ^ 31) \<or> 2 ^ 31 - 1 < v then None
         else Some v)"

subsection \<open>The host platform and the service object\<close>

text \<open>
  The constants of \<^verbatim>\<open>Usb.h\<close> that the functions below use. The header is not part of
  the sources at hand, so they are parameters. The timeout is in seconds, the retry
  delay in milliseconds.
\<close>

record usb_h =
  PULLUP_PATH :: string
  ID_PATH :: string
  VBUS_PATH :: string
  USB_DATA_PATH :: string
  kGadgetName :: string
  PORT_TYPE_TIMEOUT :: nat
  ROLE_SWAP_RETRY_MS :: nat
  UEVENT_MSG_LEN :: nat

text \<open>
  What the environment does during one wait on the partner condition: nothing, or a
  wake-up some nanoseconds after the wait began, at which \<^verbatim>\<open>mPartnerUp\<close> has the given
  value.
\<close>

datatype wake = Quiet | Signal nat bool

text \<open>
  The service object together with the host it runs on.
  \<^item> Members and globals of the source: \<open>mCallback\<close> (is a subscriber registered),
    \<open>mPartnerUp\<close>, \<open>mUsbDataEnabled\<close>, \<open>mI2cClientPath\<close> and the file-scope
    \<open>enabledPath\<close>.
  \<^item> The host's files: \<open>files\<close> maps a path to its contents (a read succeeds where
    the path is mapped), \<open>fopen_ok\<close> tells whether a node opens for writing,
    \<open>fputs_ret\<close> is what writing some data to a node returns (\<open>EOF\<close> on
    failure), and \<open>dirs\<close> maps a directory that can be opened to its entries, each a
    name and whether its type is \<^verbatim>\<open>DT_LNK\<close>. The host's answers depend on the path
    and the data only; the store changes through the service's own writes only.
  \<^item> Collaborators: \<open>i2c_client\<close> is what \<^verbatim>\<open>getI2cClientPath\<close> returns,
    \<open>session_warnings\<close> what the data session monitor reports for a data role, the two
    feature flags, the system property that disables contaminant detection,
    \<open>role_switch_busy\<close> (another thread holds \<^verbatim>\<open>mRoleSwitchLock\<close>), \<open>stats_up\<close>
    (the statistics service is there), \<open>map_rank\<close>, the place the C++ library gives a
    key in the iteration order of an \<^verbatim>\<open>unordered_map\<close>, and \<open>partner_sched\<close>, the
    wake-ups of the successive waits on the partner condition.
  \<^item> What the service does to the outside: \<open>delivered\<close> lists the callback invocations,
    \<open>hw_writes\<close> the data handed to \<^verbatim>\<open>fputs\<close> with the node it went to,
    \<open>cv_signals\<close> counts the signals on \<^verbatim>\<open>mPartnerCV\<close>, \<open>overheat_reports\<close> lists
    the durations reported to the statistics service.
  \<^item> \<open>now\<close> is the monotonic clock in nanoseconds, \<open>waits\<close> the number of waits on the
    partner condition so far.
\<close>

record usb =
  mCallback :: bool
  mPartnerUp :: bool
  mUsbDataEnabled :: bool
  mI2cClientPath :: string
  enabledPath :: string
  files :: "string \<rightharpoonup> string"
  fopen_ok :: "string \<Rightarrow> bool"
  fputs_ret :: "string \<Rightarrow> string \<Rightarrow> int"
  dirs :: "string \<rightharpoonup> (string \<times> bool) list"
  i2c_client :: string
  session_warnings :: "PortDataRole \<Rightarrow> ComplianceWarning list"
  enable_usb_data_compliance_warning :: bool
  enable_input_power_limited_warning :: bool
  contaminantdisable :: string
  role_switch_busy :: bool
  stats_up :: bool
  map_rank :: "string \<Rightarrow> nat"
  partner_sched :: "nat \<Rightarrow> wake"
  delivered :: "notification list"
  hw_writes :: "(string \<times> string) list"
  cv_signals :: nat
  overheat_reports :: "(int \<times> int \<times> int) list"
  now :: nat
  waits :: nat

definition EOF :: int where
  "EOF = - 1"

definition EAGAIN :: int where
  "EAGAIN = 11"

text \<open>
  A stream opened for writing is the node's path and the data put so far; closing it
  stores that data in the node when there is any. A path reaches the host as a C string.
\<close>

type_synonym FILE = "string \<times> string"

definition fopen_w :: "string \<Rightarrow> usb \<Rightarrow> FILE option" where
  "fopen_w path u = (if fopen_ok u (c_str path) then Some (c_str path, []) else None)"

definition fputs :: "string \<Rightarrow> FILE \<Rightarrow> usb \<Rightarrow> int \<times> FILE \<times> usb" where
  "fputs s fp u =
     (let ret = fputs_ret u (fst fp) s
      in (ret,
          (fst fp, if ret \<noteq> EOF then snd fp @ s else snd fp),
          u\<lparr>hw_writes := hw_writes u @ [(fst fp, s)]\<rparr>))"

definition fclose :: "FILE \<Rightarrow> usb \<Rightarrow> usb" where
  "fclose fp u = (if snd fp = [] then u else u\<lparr>files := (files u)(fst fp \<mapsto> snd fp)\<rparr>)"

text \<open>\<^verbatim>\<open>android::base::ReadFileToString\<close> and \<^verbatim>\<open>WriteStringToFile\<close>.\<close>

definition ReadFileToString :: "string \<Rightarrow> usb \<Rightarrow> string option" where
  "ReadFileToString path u = files u (c_str path)"

definition WriteStringToFile :: "string \<Rightarrow> string \<Rightarrow> usb \<Rightarrow> bool \<times> usb" where
  "WriteStringToFile content path u =
     (case fopen_w path u of
        None \<Rightarrow> (False, u)
      | Some fp \<Rightarrow>
          (case fputs content fp u of
             (ret, fp', u') \<Rightarrow> (ret \<noteq> EOF, fclose fp' u')))"

text \<open>An invocation of the callback; without a subscriber nothing is delivered.\<close>

definition notify :: "notification \<Rightarrow> usb \<Rightarrow> usb" where
  "notify n u = (if mCallback u then u\<lparr>delivered := delivered u @ [n]\<rparr> else u)"

subsection \<open>Role switch\<close>

definition appendRoleNodeHelper :: "string \<Rightarrow> Tag \<Rightarrow> string" where
  "appendRoleNodeHelper port_name tag =
     (let node = ''/sys/class/typec/'' @ port_name
      in case tag of
           Tag_dataRole \<Rightarrow> node @ ''/data_role''
         | Tag_powerRole \<Rightarrow> node @ ''/power_role''
         | Tag_mode \<Rightarrow> node @ ''/port_type'')"

definition convertRoletoString :: "PortRole \<Rightarrow> string" where
  "convertRoletoString role =
     (case role of
        powerRole r \<Rightarrow>
          (if r = PortPowerRole_SOURCE then ''source''
           else if r = PortPowerRole_SINK then ''sink'' else ''none'')
      | dataRole r \<Rightarrow>
          (if r = PortDataRole_HOST then ''host''
           else if r = PortDataRole_DEVICE then ''device'' else ''none'')
      | mode r \<Rightarrow>
          (if r = PortMode_UFP then ''sink''
           else if r = PortMode_DFP then ''source'' else ''none''))"

definition switchToDrp :: "string \<Rightarrow> usb \<Rightarrow> usb" where
  "switchToDrp port_name u =
     (let filename = appendRoleNodeHelper (c_str port_name) Tag_mode
      in if filename \<noteq> [] then
           (case fopen_w filename u of
              Some fp \<Rightarrow> (case fputs ''dual'' fp u of (ret, fp', u') \<Rightarrow> fclose fp' u')
            | None \<Rightarrow> u)
         else u)"

text \<open>
  \<^verbatim>\<open>pthread_cond_timedwait\<close> on the partner condition, called at time \<open>t\<close> with the
  absolute deadline \<open>to\<close>: it returns with \<^verbatim>\<open>ETIMEDOUT\<close> at the deadline unless a
  wake-up comes before.
\<close>

datatype timedwait = ETIMEDOUT nat | Woken nat bool

definition pthread_cond_timedwait :: "wake \<Rightarrow> nat \<Rightarrow> nat \<Rightarrow> timedwait" where
  "pthread_cond_timedwait w t to =
     (case w of
        Quiet \<Rightarrow> ETIMEDOUT (max t to)
      | Signal d up \<Rightarrow> if t + d < to then Woken (t + d) up else ETIMEDOUT (max t to))"

text \<open>
  The wait of \<^verbatim>\<open>switchMode\<close>, from the label \<^verbatim>\<open>wait_again\<close> on: the clock is read, the
  deadline is that time plus the timeout, and a wake-up that finds \<^verbatim>\<open>mPartnerUp\<close> false
  jumps back to the label. \<open>k\<close> counts the waits, \<open>t\<close> is the clock. The result is
  \<^verbatim>\<open>roleSwitch\<close>, the clock and the count at the end; \<open>None\<close> when the loop never ends.
\<close>

partial_function (option) wait_again ::
  "nat \<Rightarrow> (nat \<Rightarrow> wake) \<Rightarrow> nat \<Rightarrow> nat \<Rightarrow> (bool \<times> nat \<times> nat) option" where
  "wait_again timeout sched k t =
     (case pthread_cond_timedwait (sched k) t (t + timeout * 1000000000) of
        ETIMEDOUT t' \<Rightarrow> Some (False, t', Suc k)
      | Woken t' up \<Rightarrow>
          if \<not> up then wait_again timeout sched (Suc k) t'
          else Some (True, t', Suc k))"

definition switchMode :: "usb_h \<Rightarrow> string \<Rightarrow> PortRole \<Rightarrow> usb \<Rightarrow> (bool \<times> usb) option" where
  "switchMode h port_name in_role u =
     (let filename = appendRoleNodeHelper (c_str port_name) (getTag in_role)
      in if filename = [] then Some (False, u)
         else
           (case fopen_w filename u of
              Some fp \<Rightarrow>
                (case fputs (convertRoletoString in_role) fp (u\<lparr>mPartnerUp := False\<rparr>) of
                   (ret, fp', u1) \<Rightarrow>
                     (let u2 = fclose fp' u1
                      in if ret \<noteq> EOF then
                           (case wait_again (PORT_TYPE_TIMEOUT h) (partner_sched u2)
                                   (waits u2) (now u2) of
                              None \<Rightarrow> None
                            | Some (roleSwitch, t, k) \<Rightarrow>
                                (let u3 = u2\<lparr>mPartnerUp := roleSwitch, now := t, waits := k\<rparr>
                                 in Some (roleSwitch,
                                          if \<not> roleSwitch then switchToDrp port_name u3 else u3)))
                         else Some (False, switchToDrp port_name u2)))
            | None \<Rightarrow> Some (False, switchToDrp port_name u)))"

text \<open>
  The branch of \<^verbatim>\<open>switchRole\<close> for a power or data role: the role is written to its
  node, written once more after a pause when \<^verbatim>\<open>fputs\<close> returned \<^verbatim>\<open>EAGAIN\<close>, and read
  back.
\<close>

definition switchRole_node :: "usb_h \<Rightarrow> string \<Rightarrow> PortRole \<Rightarrow> usb \<Rightarrow> bool \<times> usb" where
  "switchRole_node h filename in_role u =
     (case fopen_w filename u of
        Some fp \<Rightarrow>
          (case fputs (convertRoletoString in_role) fp u of
             (ret1, fp1, u1) \<Rightarrow>
               (case (if ret1 = EAGAIN
                      then fputs (convertRoletoString in_role) fp1
                             (u1\<lparr>now := now u1 + ROLE_SWAP_RETRY_MS h * 1000000\<rparr>)
                      else (ret1, fp1, u1)) of
                  (ret, fp2, u2) \<Rightarrow>
                    (let u3 = fclose fp2 u2
                     in if ret \<noteq> EOF then
                          (case ReadFileToString filename u3 of
                             Some written \<Rightarrow>
                               (extractRole (Trim written) = convertRoletoString in_role, u3)
                           | None \<Rightarrow> (False, u3))
                        else (False, u3))))
      | None \<Rightarrow> (False, u))"

text \<open>\<open>None\<close>: the call does not return.\<close>

definition switchRole :: "usb_h \<Rightarrow> string \<Rightarrow> PortRole \<Rightarrow> int64_t \<Rightarrow> usb \<Rightarrow> usb option" where
  "switchRole h in_portName in_role in_transactionId u =
     (let filename = appendRoleNodeHelper (c_str in_portName) (getTag in_role)
      in if filename = [] then Some u
         else
           (case (if getTag in_role = Tag_mode then switchMode h in_portName in_role u
                  else Some (switchRole_node h filename in_role u)) of
              None \<Rightarrow> None
            | Some (roleSwitch, u1) \<Rightarrow>
                Some (notify (notifyRoleSwitchStatus in_portName in_role
                                (if roleSwitch then SUCCESS else ERROR) in_transactionId) u1)))"

subsection \<open>The port status snapshot\<close>

text \<open>
  Where C++ leaves the behaviour undefined or ends the process, the model stops with a
  fault: an index outside a vector, \<^verbatim>\<open>get\<close> on a union that holds another kind, an
  exception of \<^verbatim>\<open>std::stoi\<close>.
\<close>

datatype fault = vector_out_of_range nat | union_bad_access | stoi_exception

definition kTypecPath :: string where
  "kTypecPath = ''/sys/class/typec''"

definition kComplianceWarningsPath :: string where
  "kComplianceWarningsPath = ''device/non_compliant_reasons''"

definition kComplianceWarningBC12 :: string where
  "kComplianceWarningBC12 = ''bc12''"

definition kComplianceWarningDebugAccessory :: string where
  "kComplianceWarningDebugAccessory = ''debug-accessory''"

definition kComplianceWarningMissingRp :: string where
  "kComplianceWarningMissingRp = ''missing_rp''"

definition kComplianceWarningOther :: string where
  "kComplianceWarningOther = ''other''"

definition kComplianceWarningInputPowerLimited :: string where
  "kComplianceWarningInputPowerLimited = ''input_power_limited''"

definition kContaminantDetectionPath :: string where
  "kContaminantDetectionPath = ''contaminant_detection''"

definition kStatusPath :: string where
  "kStatusPath = ''contaminant_detection_status''"

definition kSinkLimitEnable :: string where
  "kSinkLimitEnable = ''usb_limit_sink_enable''"

definition kSourceLimitEnable :: string where
  "kSourceLimitEnable = ''usb_limit_source_enable''"

definition kSinkLimitCurrent :: string where
  "kSinkLimitCurrent = ''usb_limit_sink_current''"

definition kPogoUsbActive :: string where
  "kPogoUsbActive = ''/sys/devices/platform/google,pogo/pogo_usb_active''"

definition KPogoMoveDataToUsb :: string where
  "KPogoMoveDataToUsb = ''/sys/devices/platform/google,pogo/move_data_to_usb''"

definition kPowerSupplyUsbType :: string where
  "kPowerSupplyUsbType = ''/sys/class/power_supply/usb/usb_type''"

definition kOverheatStatsPath :: string where
  "kOverheatStatsPath = ''/sys/devices/platform/google,usbc_port_cooling_dev/''"

definition kOverheatStatsDev :: string where
  "kOverheatStatsDev = ''DRIVER=google,usbc_port_cooling_dev''"

text \<open>
  \<^verbatim>\<open>queryMoistureDetectionStatus\<close>. Its first statement indexes the vector at 0.
\<close>

definition queryMoistureDetectionStatus ::
  "usb \<Rightarrow> PortStatus list \<Rightarrow> fault + (Status \<times> usb \<times> PortStatus list)" where
  "queryMoistureDetectionStatus u v =
     (if length v \<le> 0 then Inl (vector_out_of_range 0)
      else
        (let v1 = v[0 := (v ! 0)
                   \<lparr> supportedContaminantProtectionModes :=
                       supportedContaminantProtectionModes (v ! 0)
                       @ [ContaminantProtectionMode_FORCE_DISABLE],
                     contaminantProtectionStatus := ContaminantProtectionStatus_NONE,
                     contaminantDetectionStatus := ContaminantDetectionStatus_DISABLED,
                     supportsEnableContaminantPresenceDetection := True,
                     supportsEnableContaminantPresenceProtection := False \<rparr>];
             u1 = (if mI2cClientPath u = [] then u\<lparr>mI2cClientPath := i2c_client u\<rparr> else u)
         in if mI2cClientPath u1 = [] then Inr (ERROR, u1, v1)
            else
              (let u2 = u1\<lparr>enabledPath := mI2cClientPath u1 @ kContaminantDetectionPath\<rparr>
               in case ReadFileToString (enabledPath u2) u2 of
                    None \<Rightarrow> Inr (ERROR, u2, v1)
                  | Some enabled \<Rightarrow>
                      if Trim enabled = ''1'' then
                        (case ReadFileToString (mI2cClientPath u2 @ kStatusPath) u2 of
                           None \<Rightarrow> Inr (ERROR, u2, v1)
                         | Some status \<Rightarrow>
                             if Trim status = ''1'' then
                               Inr (SUCCESS, u2,
                                    v1[0 := (v1 ! 0)
                                      \<lparr> contaminantDetectionStatus :=
                                          ContaminantDetectionStatus_DETECTED,
                                        contaminantProtectionStatus :=
                                          ContaminantProtectionStatus_FORCE_DISABLE \<rparr>])
                             else
                               Inr (SUCCESS, u2,
                                    v1[0 := (v1 ! 0)
                                      \<lparr> contaminantDetectionStatus :=
                                          ContaminantDetectionStatus_NOT_DETECTED \<rparr>]))
                      else Inr (SUCCESS, u2, v1))))"

text \<open>
  \<^verbatim>\<open>queryNonCompliantChargerStatus\<close>: the warning a token of the reasons file stands
  for, the body of the loop over the ports, and the loop.
\<close>

definition reason_warning :: "usb \<Rightarrow> string \<Rightarrow> ComplianceWarning option" where
  "reason_warning u reason =
     (if starts_with reason kComplianceWarningDebugAccessory
        then Some ComplianceWarning_DEBUG_ACCESSORY
      else if starts_with reason kComplianceWarningBC12
        then Some ComplianceWarning_BC_1_2
      else if starts_with reason kComplianceWarningMissingRp
        then Some ComplianceWarning_MISSING_RP
      else if starts_with reason kComplianceWarningOther
              \<or> starts_with reason kComplianceWarningInputPowerLimited
        then (if enable_usb_data_compliance_warning u \<and> enable_input_power_limited_warning u
              then Some ComplianceWarning_INPUT_POWER_LIMITED
              else Some ComplianceWarning_OTHER)
      else None)"

definition reasons_warnings :: "usb \<Rightarrow> string \<Rightarrow> ComplianceWarning list" where
  "reasons_warnings u reasons =
     List.map_filter (reason_warning u)
       (Tokenize (c_str reasons) [CHR ''['', CHR '']'', CHR '','', CHR '' '', CHR 0x0A])"

definition queryNonCompliantChargerStatus_port :: "usb \<Rightarrow> PortStatus \<Rightarrow> PortStatus" where
  "queryNonCompliantChargerStatus_port u p =
     (let p1 = p\<lparr>supportsComplianceWarnings := True\<rparr>;
          path = kTypecPath @ ''/'' @ portName p1 @ ''/'' @ kComplianceWarningsPath
      in case ReadFileToString (c_str path) u of
           Some reasons \<Rightarrow>
             (let p2 = p1\<lparr>complianceWarnings :=
                           complianceWarnings p1 @ reasons_warnings u reasons\<rparr>
              in if length (complianceWarnings p2) > 0
                    \<and> currentPowerRole p2 = PortPowerRole_NONE
                 then p2\<lparr> currentMode := PortMode_UFP,
                          currentPowerRole := PortPowerRole_SINK,
                          currentDataRole := PortDataRole_NONE,
                          powerBrickStatus := PowerBrickStatus_CONNECTED \<rparr>
                 else p2)
         | None \<Rightarrow> p1)"

definition queryNonCompliantChargerStatus :: "usb \<Rightarrow> PortStatus list \<Rightarrow> Status \<times> PortStatus list" where
  "queryNonCompliantChargerStatus u v = (SUCCESS, map (queryNonCompliantChargerStatus_port u) v)"

definition queryPowerTransferStatus ::
  "usb \<Rightarrow> PortStatus list \<Rightarrow> fault + (Status \<times> usb \<times> PortStatus list)" where
  "queryPowerTransferStatus u v =
     (let u1 = (if mI2cClientPath u = [] then u\<lparr>mI2cClientPath := i2c_client u\<rparr> else u)
      in if mI2cClientPath u1 = [] then Inr (ERROR, u1, v)
         else
           (case ReadFileToString (mI2cClientPath u1 @ kSinkLimitEnable) u1 of
              None \<Rightarrow> Inr (ERROR, u1, v)
            | Some enabled \<Rightarrow>
                if length v \<le> 0 then Inl (vector_out_of_range 0)
                else Inr (SUCCESS, u1,
                          v[0 := (v ! 0)\<lparr>powerTransferLimited := (Trim enabled = ''1'')\<rparr>])))"

definition getAccessoryConnected :: "string \<Rightarrow> usb \<Rightarrow> Status \<times> string" where
  "getAccessoryConnected port_name u =
     (case ReadFileToString (''/sys/class/typec/'' @ port_name @ ''-partner/accessory_mode'') u of
        None \<Rightarrow> (ERROR, [])
      | Some accessory \<Rightarrow> (SUCCESS, Trim accessory))"

text \<open>
  \<^verbatim>\<open>getCurrentRoleHelper\<close>: the status and the role left in \<^verbatim>\<open>*currentRole\<close>. The
  names \<^verbatim>\<open>source\<close> and \<^verbatim>\<open>sink\<close> store a power role whatever kind was asked for, and
  \<^verbatim>\<open>host\<close> and \<^verbatim>\<open>device\<close> store a mode unless a data role was asked for.
\<close>

definition role_of_name :: "string \<Rightarrow> PortRole \<Rightarrow> Status \<times> PortRole" where
  "role_of_name roleName currentRole =
     (if roleName = ''source'' then (SUCCESS, powerRole PortPowerRole_SOURCE)
      else if roleName = ''sink'' then (SUCCESS, powerRole PortPowerRole_SINK)
      else if roleName = ''host'' then
        (if getTag currentRole = Tag_dataRole then (SUCCESS, dataRole PortDataRole_HOST)
         else (SUCCESS, mode PortMode_DFP))
      else if roleName = ''device'' then
        (if getTag currentRole = Tag_dataRole then (SUCCESS, dataRole PortDataRole_DEVICE)
         else (SUCCESS, mode PortMode_UFP))
      else if roleName \<noteq> ''none'' then (UNRECOGNIZED_ROLE, currentRole)
      else (SUCCESS, currentRole))"

definition read_role :: "string \<Rightarrow> PortRole \<Rightarrow> usb \<Rightarrow> Status \<times> PortRole" where
  "read_role filename currentRole u =
     (case ReadFileToString filename u of
        None \<Rightarrow> (ERROR, currentRole)
      | Some roleName \<Rightarrow> role_of_name (extractRole (Trim roleName)) currentRole)"

definition getCurrentRoleHelper :: "string \<Rightarrow> bool \<Rightarrow> PortRole \<Rightarrow> usb \<Rightarrow> Status \<times> PortRole" where
  "getCurrentRoleHelper port_name connected currentRole u =
     (let filename =
            (if getTag currentRole = Tag_powerRole
             then ''/sys/class/typec/'' @ port_name @ ''/power_role''
             else ''/sys/class/typec/'' @ port_name @ ''/data_role'');
          role0 =
            (case getTag currentRole of
               Tag_powerRole \<Rightarrow> powerRole PortPowerRole_NONE
             | Tag_dataRole \<Rightarrow> dataRole PortDataRole_NONE
             | Tag_mode \<Rightarrow> mode PortMode_NONE)
      in if \<not> connected then (SUCCESS, role0)
         else if getTag role0 = Tag_mode then
           (case getAccessoryConnected port_name u of
              (st, accessory) \<Rightarrow>
                if st \<noteq> SUCCESS then (ERROR, role0)
                else if accessory = ''analog_audio'' then (SUCCESS, mode PortMode_AUDIO_ACCESSORY)
                else if accessory = ''debug'' then (SUCCESS, mode PortMode_DEBUG_ACCESSORY)
                else read_role filename role0 u)
         else read_role filename role0 u)"

text \<open>
  \<^verbatim>\<open>getTypeCPortNamesHelper\<close>. The map from port names to the connected flag is a list
  of pairs with distinct names, kept in the order of first insertion. That is the
  contents of the map only: C++ fixes no order in which an \<^verbatim>\<open>unordered_map\<close> is gone
  through, see \<open>unordered_iteration\<close> below.
\<close>

definition names_insert :: "string \<Rightarrow> (string \<times> bool) list \<Rightarrow> (string \<times> bool) list" where
  "names_insert d names = (if map_of names d = None then names @ [(d, False)] else names)"

fun names_set_true :: "string \<Rightarrow> (string \<times> bool) list \<Rightarrow> (string \<times> bool) list" where
  "names_set_true d [] = [(d, True)]"
| "names_set_true d (p # ps) = (if fst p = d then (d, True) # ps else p # names_set_true d ps)"

definition readdir_step :: "(string \<times> bool) list \<Rightarrow> string \<times> bool \<Rightarrow> (string \<times> bool) list" where
  "readdir_step names ep =
     (if snd ep then
        (if \<not> occurs_in ''-partner'' (c_str (fst ep)) then names_insert (c_str (fst ep)) names
         else names_set_true (strtok (c_str (fst ep)) CHR ''-'') names)
      else names)"

definition getTypeCPortNamesHelper ::
  "(string \<times> bool) list \<Rightarrow> usb \<Rightarrow> Status \<times> (string \<times> bool) list" where
  "getTypeCPortNamesHelper names u =
     (case dirs u kTypecPath of
        Some entries \<Rightarrow> (SUCCESS, foldl readdir_step names entries)
      | None \<Rightarrow> (ERROR, names))"

definition canSwitchRoleHelper :: "string \<Rightarrow> usb \<Rightarrow> bool" where
  "canSwitchRoleHelper port_name u =
     (case ReadFileToString
             (''/sys/class/typec/'' @ port_name @ ''-partner/supports_usb_power_delivery'') u of
        Some supportsPD \<Rightarrow> Trim supportsPD = ''yes''
      | None \<Rightarrow> False)"

text \<open>\<^verbatim>\<open>get\<close> on the union: the process ends when the union holds another kind.\<close>

definition get_powerRole :: "PortRole \<Rightarrow> fault + PortPowerRole" where
  "get_powerRole r = (case r of powerRole x \<Rightarrow> Inr x | _ \<Rightarrow> Inl union_bad_access)"

definition get_dataRole :: "PortRole \<Rightarrow> fault + PortDataRole" where
  "get_dataRole r = (case r of dataRole x \<Rightarrow> Inr x | _ \<Rightarrow> Inl union_bad_access)"

definition get_mode :: "PortRole \<Rightarrow> fault + PortMode" where
  "get_mode r = (case r of mode x \<Rightarrow> Inr x | _ \<Rightarrow> Inl union_bad_access)"

text \<open>
  The body of the loop of \<^verbatim>\<open>getPortStatusHelper\<close> for one port, in two parts. The first
  sets the name and resolves the three roles; its flag is false where the source jumps
  to \<^verbatim>\<open>done\<close>. The second fills in the rest of the entry.
\<close>

definition port_roles :: "usb \<Rightarrow> string \<Rightarrow> bool \<Rightarrow> PortStatus \<Rightarrow> fault + (bool \<times> PortStatus)" where
  "port_roles u name connected p =
     (let p0 = p\<lparr>portName := name\<rparr>
      in case getCurrentRoleHelper name connected (powerRole PortPowerRole_NONE) u of
           (st1, r1) \<Rightarrow>
             if st1 \<noteq> SUCCESS then Inr (False, p0)
             else
               (case get_powerRole r1 of
                  Inl f \<Rightarrow> Inl f
                | Inr pr \<Rightarrow>
                    (let p1 = p0\<lparr>currentPowerRole := pr\<rparr>
                     in case getCurrentRoleHelper name connected (dataRole PortDataRole_NONE) u of
                          (st2, r2) \<Rightarrow>
                            if st2 \<noteq> SUCCESS then Inr (False, p1)
                            else
                              (case get_dataRole r2 of
                                 Inl f \<Rightarrow> Inl f
                               | Inr dr \<Rightarrow>
                                   (let p2 = p1\<lparr>currentDataRole := dr\<rparr>
                                    in case getCurrentRoleHelper name connected
                                              (mode PortMode_NONE) u of
                                         (st3, r3) \<Rightarrow>
                                           if st3 \<noteq> SUCCESS then Inr (False, p2)
                                           else
                                             (case get_mode r3 of
                                                Inl f \<Rightarrow> Inl f
                                              | Inr m \<Rightarrow>
                                                  Inr (True, p2\<lparr>currentMode := m\<rparr>)))))))"

definition port_data_status :: "usb \<Rightarrow> PortStatus \<Rightarrow> fault + PortStatus" where
  "port_data_status u p =
     (case (case ReadFileToString kPogoUsbActive u of
              None \<Rightarrow> Inr False
            | Some pogoUsbActive \<Rightarrow>
                (case stoi (Trim pogoUsbActive) of
                   None \<Rightarrow> Inl stoi_exception
                 | Some n \<Rightarrow> Inr (n = 1))) of
        Inl f \<Rightarrow> Inl f
      | Inr docked \<Rightarrow>
          (let p1 = (if docked
                     then p\<lparr>usbDataStatus :=
                             usbDataStatus p @ [UsbDataStatus_DISABLED_DOCK_DEVICE_MODE]\<rparr>
                     else p);
               p2 = (if \<not> mUsbDataEnabled u
                     then p1\<lparr>usbDataStatus := usbDataStatus p1 @ [UsbDataStatus_DISABLED_FORCE]\<rparr>
                     else p1);
               dataEnabled = (\<not> docked \<and> mUsbDataEnabled u)
           in Inr (if dataEnabled
                   then p2\<lparr>usbDataStatus := usbDataStatus p2 @ [UsbDataStatus_ENABLED]\<rparr>
                   else p2)))"

definition port_power_brick :: "usb \<Rightarrow> bool \<Rightarrow> PortStatus \<Rightarrow> PortStatus" where
  "port_power_brick u connected p =
     (if connected then
        (if currentPowerRole p = PortPowerRole_SOURCE
         then p\<lparr>powerBrickStatus := PowerBrickStatus_NOT_CONNECTED\<rparr>
         else
           (case ReadFileToString kPowerSupplyUsbType u of
              Some usbType \<Rightarrow>
                if occurs_in ''[D'' (c_str usbType)
                  then p\<lparr>powerBrickStatus := PowerBrickStatus_CONNECTED\<rparr>
                else if occurs_in ''[U'' (c_str usbType)
                  then p\<lparr>powerBrickStatus := PowerBrickStatus_UNKNOWN\<rparr>
                else p\<lparr>powerBrickStatus := PowerBrickStatus_NOT_CONNECTED\<rparr>
            | None \<Rightarrow> p))
      else p\<lparr>powerBrickStatus := PowerBrickStatus_NOT_CONNECTED\<rparr>)"

definition port_rest :: "usb \<Rightarrow> string \<Rightarrow> bool \<Rightarrow> PortStatus \<Rightarrow> fault + PortStatus" where
  "port_rest u name connected p =
     (let p1 = p\<lparr> canChangeMode := True,
                  canChangeDataRole := (if connected then canSwitchRoleHelper name u else False),
                  canChangePowerRole := (if connected then canSwitchRoleHelper name u else False),
                  supportedModes := supportedModes p @ [PortMode_DRP] \<rparr>
      in case port_data_status u p1 of
           Inl f \<Rightarrow> Inl f
         | Inr p2 \<Rightarrow> Inr (port_power_brick u connected p2))"

fun ports_loop ::
  "usb \<Rightarrow> (string \<times> bool) list \<Rightarrow> nat \<Rightarrow> PortStatus list \<Rightarrow> fault + (Status \<times> PortStatus list)" where
  "ports_loop u [] i v = Inr (SUCCESS, v)"
| "ports_loop u (port # ports) i v =
     (case port_roles u (fst port) (snd port) (v ! i) of
        Inl f \<Rightarrow> Inl f
      | Inr (ok, p) \<Rightarrow>
          if \<not> ok then Inr (ERROR, v[i := p])
          else
            (case port_rest u (fst port) (snd port) p of
               Inl f \<Rightarrow> Inl f
             | Inr p' \<Rightarrow> ports_loop u ports (Suc i) (v[i := p'])))"

text \<open>\<^verbatim>\<open>std::vector::resize\<close>: cut to the size, or filled up with default entries.\<close>

definition resize :: "PortStatus list \<Rightarrow> nat \<Rightarrow> PortStatus list" where
  "resize v n = take n v @ replicate (n - length v) PortStatus_default"

text \<open>
  The order in which a range-based \<^verbatim>\<open>for\<close> goes through the map: the library's, by
  \<open>map_rank\<close>. Every order of the names is the order of some ranking; keys of equal rank
  come in the order of insertion.
\<close>

definition unordered_iteration :: "usb \<Rightarrow> (string \<times> bool) list \<Rightarrow> (string \<times> bool) list" where
  "unordered_iteration u names = sort_key (\<lambda>port. map_rank u (fst port)) names"

definition getPortStatusHelper ::
  "usb \<Rightarrow> PortStatus list \<Rightarrow> fault + (Status \<times> PortStatus list)" where
  "getPortStatusHelper u v =
     (case getTypeCPortNamesHelper [] u of
        (result, names) \<Rightarrow>
          if result = SUCCESS
          then ports_loop u (unordered_iteration u names) 0 (resize v (length names))
          else Inr (ERROR, v))"

definition queryUsbDataSession :: "usb \<Rightarrow> PortStatus list \<Rightarrow> fault + PortStatus list" where
  "queryUsbDataSession u v =
     (if length v \<le> 0 then Inl (vector_out_of_range 0)
      else Inr (v[0 := (v ! 0)
                  \<lparr>complianceWarnings :=
                     complianceWarnings (v ! 0) @ session_warnings u (currentDataRole (v ! 0))\<rparr>]))"

text \<open>
  \<^verbatim>\<open>queryVersionHelper\<close>: the five steps in the source's order, then the callback with
  the status of the first step. A fault carries the service as it was when the run ended.
\<close>

definition queryVersionHelper ::
  "usb \<Rightarrow> PortStatus list \<Rightarrow> (fault \<times> usb) + (usb \<times> PortStatus list)" where
  "queryVersionHelper u v =
     (case getPortStatusHelper u v of
        Inl f \<Rightarrow> Inl (f, u)
      | Inr (status, v1) \<Rightarrow>
          (case queryMoistureDetectionStatus u v1 of
             Inl f \<Rightarrow> Inl (f, u)
           | Inr (st2, u2, v2) \<Rightarrow>
               (case queryPowerTransferStatus u2 v2 of
                  Inl f \<Rightarrow> Inl (f, u2)
                | Inr (st3, u3, v3) \<Rightarrow>
                    (case queryNonCompliantChargerStatus u3 v3 of
                       (st4, v4) \<Rightarrow>
                         (case queryUsbDataSession u3 v4 of
                            Inl f \<Rightarrow> Inl (f, u3)
                          | Inr v5 \<Rightarrow>
                              Inr (notify (notifyPortStatusChange v5 status) u3, v5))))))"

subsection \<open>The operations of the interface\<close>

text \<open>
  The node writes of \<^verbatim>\<open>enableUsbData\<close>: the value of \<^verbatim>\<open>result\<close> after them, and the
  service.
\<close>

definition enableUsbData_writes :: "usb_h \<Rightarrow> bool \<Rightarrow> usb \<Rightarrow> bool \<times> usb" where
  "enableUsbData_writes h in_enable u =
     (if in_enable then
        (if \<not> mUsbDataEnabled u then
           (case (case ReadFileToString (PULLUP_PATH h) u of
                    Some pullup \<Rightarrow>
                      if Trim pullup \<noteq> kGadgetName h
                      then WriteStringToFile (kGadgetName h) (PULLUP_PATH h) u
                      else (True, u)
                  | None \<Rightarrow> (True, u)) of
              (ok1, u1) \<Rightarrow>
                (case WriteStringToFile ''1'' (USB_DATA_PATH h) u1 of
                   (ok2, u2) \<Rightarrow> (ok1 \<and> ok2, u2)))
         else (True, u))
      else
        (case (case ReadFileToString (PULLUP_PATH h) u of
                 Some pullup \<Rightarrow>
                   if Trim pullup = kGadgetName h
                   then WriteStringToFile ''none'' (PULLUP_PATH h) u
                   else (True, u)
               | None \<Rightarrow> (True, u)) of
           (ok1, u1) \<Rightarrow>
             (case WriteStringToFile ''1'' (ID_PATH h) u1 of
                (ok2, u2) \<Rightarrow>
                  (case WriteStringToFile ''0'' (VBUS_PATH h) u2 of
                     (ok3, u3) \<Rightarrow>
                       (case WriteStringToFile ''0'' (USB_DATA_PATH h) u3 of
                          (ok4, u4) \<Rightarrow> (ok1 \<and> ok2 \<and> ok3 \<and> ok4, u4))))))"

text \<open>
  The caller's vector is a fresh, empty one in every operation. The result of an
  operation is the service afterwards, or the fault that ended the run.
\<close>

definition requery :: "usb \<Rightarrow> (fault \<times> usb) + usb" where
  "requery u = (case queryVersionHelper u [] of Inl e \<Rightarrow> Inl e | Inr (u', v) \<Rightarrow> Inr u')"

definition enableUsbData ::
  "usb_h \<Rightarrow> string \<Rightarrow> bool \<Rightarrow> int64_t \<Rightarrow> usb \<Rightarrow> (fault \<times> usb) + usb" where
  "enableUsbData h in_portName in_enable in_transactionId u =
     (case enableUsbData_writes h in_enable u of
        (result, u1) \<Rightarrow>
          (let u2 = (if result then u1\<lparr>mUsbDataEnabled := in_enable\<rparr> else u1);
               u3 = notify (notifyEnableUsbDataStatus in_portName in_enable
                              (if result then SUCCESS else ERROR) in_transactionId) u2
           in requery u3))"




definition queryPortStatus :: "int64_t \<Rightarrow> usb \<Rightarrow> (fault \<times> usb) + usb" where
  "queryPortStatus in_transactionId u =
     (case queryVersionHelper u [] of
        Inl e \<Rightarrow> Inl e
      | Inr (u1, v) \<Rightarrow>
          Inr (notify (notifyQueryPortStatus ''all'' SUCCESS in_transactionId) u1))"


subsection \<open>The kernel event dispatcher\<close>

text \<open>
  \<^verbatim>\<open>report_overheat_event\<close>: the three durations are read and reported; the temperatures
  of the report are floating point values of the thermal collaborator and are left out.
\<close>

definition report_overheat_event :: "usb \<Rightarrow> fault + usb" where
  "report_overheat_event u =
     (case ReadFileToString (kOverheatStatsPath @ ''trip_time'') u of
        None \<Rightarrow> Inr u
      | Some c1 \<Rightarrow>
          (case stoi (Trim c1) of
             None \<Rightarrow> Inl stoi_exception
           | Some t1 \<Rightarrow>
               (case ReadFileToString (kOverheatStatsPath @ ''hysteresis_time'') u of
                  None \<Rightarrow> Inr u
                | Some c2 \<Rightarrow>
                    (case stoi (Trim c2) of
                       None \<Rightarrow> Inl stoi_exception
                     | Some t2 \<Rightarrow>
                         (case ReadFileToString (kOverheatStatsPath @ ''cleared_time'') u of
                            None \<Rightarrow> Inr u
                          | Some c3 \<Rightarrow>
                              (case stoi (Trim c3) of
                                 None \<Rightarrow> Inl stoi_exception
                               | Some t3 \<Rightarrow>
                                   Inr (if stats_up u
                                        then u\<lparr>overheat_reports :=
                                                 overheat_reports u @ [(t1, t2, t3)]\<rparr>
                                        else u)))))))"

text \<open>
  \<^verbatim>\<open>std::regex_match\<close> against \<^verbatim>\<open>(add)(.*)(-partner)\<close>: the whole record is
  \<^verbatim>\<open>add\<close>, any characters but line ends, and \<^verbatim>\<open>-partner\<close>.
\<close>

definition partner_added :: "string \<Rightarrow> bool" where
  "partner_added cp =
     (11 \<le> length cp \<and> take 3 cp = ''add'' \<and> drop (length cp - 8) cp = ''-partner''
      \<and> list_all (\<lambda>c. c \<noteq> CHR 0x0A \<and> c \<noteq> CHR 0x0D) (take (length cp - 11) (drop 3 cp)))"

text \<open>
  The records of a message: the NUL-terminated strings of the buffer up to the first
  empty one (the source puts two NUL bytes behind the received bytes).
\<close>

primrec split_nul :: "string \<Rightarrow> string list" where
  "split_nul [] = [[]]"
| "split_nul (c # cs) =
     (if c = NUL then [] # split_nul cs
      else (c # hd (split_nul cs)) # tl (split_nul cs))"

definition uevent_records :: "string \<Rightarrow> string list" where
  "uevent_records msg = takeWhile (\<lambda>r. r \<noteq> []) (split_nul msg)"

text \<open>
  After a status refresh, when no role switch holds the lock: every port of the
  snapshot without a partner directory is switched back to dual role.
\<close>

definition drp_idle_ports :: "PortStatus list \<Rightarrow> usb \<Rightarrow> usb" where
  "drp_idle_ports v u =
     foldl (\<lambda>u' p.
              if dirs u' (c_str (''/sys/class/typec/'' @ c_str (portName p) @ ''-partner'')) = None
              then switchToDrp (portName p) u' else u')
       u v"

text \<open>
  The body of the loop of \<^verbatim>\<open>uevent_event\<close> for the record at \<^verbatim>\<open>cp\<close>; the flag tells
  whether the loop is left by \<^verbatim>\<open>break\<close>.
\<close>

definition uevent_record :: "string \<Rightarrow> usb \<Rightarrow> (fault \<times> usb) + (bool \<times> usb)" where
  "uevent_record cp u =
     (if partner_added cp then
        Inr (False, u\<lparr>mPartnerUp := True, cv_signals := cv_signals u + 1\<rparr>)
      else if starts_with cp ''DEVTYPE=typec_'' \<or> starts_with cp ''DRIVER=max77759tcpc''
              \<or> starts_with cp ''DRIVER=pogo-transport''
              \<or> starts_with cp ''POWER_SUPPLY_NAME=usb'' then
        (case queryVersionHelper u [] of
           Inl e \<Rightarrow> Inl e
         | Inr (u1, currentPortStatus) \<Rightarrow>
             Inr (True, if \<not> role_switch_busy u1 then drp_idle_ports currentPortStatus u1 else u1))
      else if starts_with cp kOverheatStatsDev then
        (case report_overheat_event u of
           Inl f \<Rightarrow> Inl (f, u)
         | Inr u1 \<Rightarrow> Inr (False, u1))
      else Inr (False, u))"

fun uevent_loop :: "string list \<Rightarrow> usb \<Rightarrow> (fault \<times> usb) + usb" where
  "uevent_loop [] u = Inr u"
| "uevent_loop (cp # cps) u =
     (case uevent_record cp u of
        Inl e \<Rightarrow> Inl e
      | Inr (stop, u1) \<Rightarrow> if stop then Inr u1 else uevent_loop cps u1)"

text \<open>\<^verbatim>\<open>uevent_event\<close> on the bytes received from the kernel.\<close>

definition uevent_event :: "usb_h \<Rightarrow> string \<Rightarrow> usb \<Rightarrow> (fault \<times> usb) + usb" where
  "uevent_event h msg u =
     (if length msg \<le> 0 then Inr u
      else if length msg \<ge> UEVENT_MSG_LEN h then Inr u
      else uevent_loop (uevent_records msg) u)"

text \<open>The service where an operation ended, with or without a fault.\<close>

definition reached :: "(fault \<times> usb) + usb \<Rightarrow> usb" where
  "reached r = (case r of Inl (f, u) \<Rightarrow> u | Inr u \<Rightarrow> u)"

subsection \<open>Example hosts\<close>

text \<open>
  A host with one port, \<^verbatim>\<open>port0\<close>, and a partner attached to it; every node accepts
  writes and a subscriber is registered. The theorems below are tried on it and on
  variations of it.
\<close>

definition host0 :: usb where
  "host0 =
     \<lparr> mCallback = True, mPartnerUp = False, mUsbDataEnabled = True,
       mI2cClientPath = [], enabledPath = [],
       files = map_of
         [(''/sys/class/typec/port0/power_role'', ''[source] sink''),
          (''/sys/class/typec/port0/data_role'', ''[host] device''),
          (''/sys/class/typec/port0-partner/accessory_mode'', ''none''),
          (''/sys/class/typec/port0-partner/supports_usb_power_delivery'', ''yes''),
          (''/i2c/contaminant_detection'', ''0''),
          (''/i2c/usb_limit_sink_enable'', ''0'')],
       fopen_ok = (\<lambda>p. True), fputs_ret = (\<lambda>p s. 0),
       dirs = map_of
         [(''/sys/class/typec'',
           [(''.'', False), (''..'', False), (''port0'', True), (''port0-partner'', True)])],
       i2c_client = ''/i2c/'',
       session_warnings = (\<lambda>r. []),
       enable_usb_data_compliance_warning = False,
       enable_input_power_limited_warning = False,
       contaminantdisable = [], role_switch_busy = False, stats_up = True,
       map_rank = (\<lambda>name. 0),
       partner_sched = (\<lambda>k. Quiet),
       delivered = [], hw_writes = [], cv_signals = 0, overheat_reports = [],
       now = 0, waits = 0 \<rparr>"

definition port0_entry :: PortStatus where
  "port0_entry = PortStatus_default\<lparr>portName := ''port0''\<rparr>"

text \<open>The same host with a reasons file for \<^verbatim>\<open>port0\<close>.\<close>

definition host_reasons :: "string \<Rightarrow> usb" where
  "host_reasons reasons =
     host0\<lparr>files := (files host0)
              (''/sys/class/typec/port0/device/non_compliant_reasons'' \<mapsto> reasons)\<rparr>"

text \<open>A header: the timeout is eight seconds.\<close>

definition usb_h0 :: usb_h where
  "usb_h0 =
     \<lparr> PULLUP_PATH = ''/config/usb_gadget/g1/UDC'',
       ID_PATH = ''/sys/devices/platform/11210000.usb/dwc3_exynos_otg_id'',
       VBUS_PATH = ''/sys/devices/platform/11210000.usb/dwc3_exynos_otg_b_sess'',
       USB_DATA_PATH = ''/sys/devices/platform/11210000.usb/usb_data_enabled'',
       kGadgetName = ''11210000.dwc3'',
       PORT_TYPE_TIMEOUT = 8,
       ROLE_SWAP_RETRY_MS = 700,
       UEVENT_MSG_LEN = 2048 \<rparr>"

text \<open>
  A host whose first wait on the partner condition is woken after seven seconds with
  \<^verbatim>\<open>mPartnerUp\<close> still false, and where nothing happens afterwards.
\<close>

definition host_spurious :: usb where
  "host_spurious =
     host0\<lparr>partner_sched := (\<lambda>k. if k = 0 then Signal 7000000000 False else Quiet)\<rparr>"

text \<open>A host where \<^verbatim>\<open>/sys/class/typec\<close> cannot be opened, and one where it has no port.\<close>

definition host_no_typec :: usb where
  "host_no_typec = host0\<lparr>dirs := Map.empty\<rparr>"

definition host_empty_typec :: usb where
  "host_empty_typec =
     host0\<lparr>dirs := map_of [(''/sys/class/typec'', [(''.'', False), (''..'', False)])]\<rparr>"

text \<open>
  The first host where the power role node of \<^verbatim>\<open>port0\<close> has the given contents, or
  cannot be read.
\<close>

definition host_role :: "string option \<Rightarrow> usb" where
  "host_role content =
     host0\<lparr>files := (files host0)(''/sys/class/typec/port0/power_role'' := content)\<rparr>"

text \<open>
  The same with a second port, \<^verbatim>\<open>port1\<close>, without a partner; the map of the port names
  is gone through from the name inserted last to the one inserted first.
\<close>

definition host_two_ports :: "string option \<Rightarrow> usb" where
  "host_two_ports content =
     (host_role content)
       \<lparr>dirs := map_of
          [(''/sys/class/typec'',
            [(''.'', False), (''..'', False), (''port0'', True), (''port0-partner'', True),
             (''port1'', True)])],
        map_rank := (\<lambda>name. if name = ''port1'' then 0 else 1)\<rparr>"

text \<open>
  A host whose port has no partner, and a reasons file with two warnings: a charger that
  role detection does not see.
\<close>

definition host_charger :: usb where
  "host_charger =
     (host_reasons ''[bc12], [missing_rp]'')
       \<lparr>dirs := map_of
          [(''/sys/class/typec'', [(''.'', False), (''..'', False), (''port0'', True)])]\<rparr>"

text \<open>
  An example host after \<^verbatim>\<open>enableUsbData(port0, false, 1)\<close> has written its three nodes
  and delivered its outcome and the snapshot \<open>snap\<close> with status \<open>st\<close>.
\<close>

definition forced_disable :: "usb \<Rightarrow> PortStatus list \<Rightarrow> Status \<Rightarrow> usb" where
  "forced_disable u snap st =
     u\<lparr> mUsbDataEnabled := False,
        mI2cClientPath := ''/i2c/'',
        enabledPath := ''/i2c/contaminant_detection'',
        files := (files u)
          (ID_PATH usb_h0 \<mapsto> ''1'', VBUS_PATH usb_h0 \<mapsto> ''0'', USB_DATA_PATH usb_h0 \<mapsto> ''0''),
        hw_writes := hw_writes u
          @ [(ID_PATH usb_h0, ''1''), (VBUS_PATH usb_h0, ''0''), (USB_DATA_PATH usb_h0, ''0'')],
        delivered := delivered u
          @ [notifyEnableUsbDataStatus ''port0'' False SUCCESS 1, notifyPortStatusChange snap st] \<rparr>"

text \<open>
  The snapshot of the first host when the power role of \<^verbatim>\<open>port0\<close> cannot be read, and
  its snapshot after data was disabled.
\<close>

definition degraded_snapshot :: "PortStatus list" where
  "degraded_snapshot =
     [port0_entry
        \<lparr> supportedContaminantProtectionModes := [ContaminantProtectionMode_FORCE_DISABLE],
          supportsEnableContaminantPresenceDetection := True,
          contaminantDetectionStatus := ContaminantDetectionStatus_DISABLED,
          supportsComplianceWarnings := True \<rparr>]"

definition forced_snapshot :: "PortStatus list" where
  "forced_snapshot =
     [port0_entry
        \<lparr> currentDataRole := PortDataRole_HOST,
          currentPowerRole := PortPowerRole_SOURCE,
          currentMode := PortMode_DFP,
          canChangeMode := True, canChangeDataRole := True, canChangePowerRole := True,
          supportedModes := [PortMode_DRP],
          supportedContaminantProtectionModes := [ContaminantProtectionMode_FORCE_DISABLE],
          supportsEnableContaminantPresenceDetection := True,
          contaminantDetectionStatus := ContaminantDetectionStatus_DISABLED,
          usbDataStatus := [UsbDataStatus_DISABLED_FORCE],
          powerBrickStatus := PowerBrickStatus_NOT_CONNECTED,
          supportsComplianceWarnings := True \<rparr>]"

text \<open>
  What port status resolution leaves in the vector on the host with two ports when the
  power role of \<^verbatim>\<open>port0\<close> cannot be read: \<^verbatim>\<open>port1\<close> comes first and is filled in,
  \<^verbatim>\<open>port0\<close> has its name only.
\<close>

definition two_ports_entries :: "PortStatus list" where
  "two_ports_entries =
     [PortStatus_default
        \<lparr> portName := ''port1'',
          canChangeMode := True,
          supportedModes := [PortMode_DRP],
          usbDataStatus := [UsbDataStatus_ENABLED],
          powerBrickStatus := PowerBrickStatus_NOT_CONNECTED \<rparr>,
      port0_entry]"


subsection \<open>Vocabulary of the properties\<close>

text \<open>
  The node of a port's mode, as \<^verbatim>\<open>switchMode\<close> and \<^verbatim>\<open>switchToDrp\<close> compute it.
\<close>

definition port_type_node :: "string \<Rightarrow> string" where
  "port_type_node p = appendRoleNodeHelper (c_str p) Tag_mode"

text \<open>
  A wake-up is spurious for a wait with the given timeout (in seconds) when it comes
  before the deadline and finds \<^verbatim>\<open>mPartnerUp\<close> false; a wait expires when nothing wakes
  it before the deadline. \<open>wake_delay\<close> is the time a wake-up takes to come.
\<close>

definition wake_delay :: "wake \<Rightarrow> nat" where
  "wake_delay w = (case w of Quiet \<Rightarrow> 0 | Signal d up \<Rightarrow> d)"

definition spurious :: "nat \<Rightarrow> wake \<Rightarrow> bool" where
  "spurious timeout w =
     (case w of Quiet \<Rightarrow> False | Signal d up \<Rightarrow> \<not> up \<and> d < timeout * 1000000000)"

definition expires :: "nat \<Rightarrow> wake \<Rightarrow> bool" where
  "expires timeout w =
     (case w of Quiet \<Rightarrow> True | Signal d up \<Rightarrow> timeout * 1000000000 \<le> d)"

text \<open>
  The fields of an entry that the moisture and power transfer steps leave alone.
\<close>

definition role_fields ::
  "PortStatus \<Rightarrow> string \<times> PortMode \<times> PortPowerRole \<times> PortDataRole \<times> PowerBrickStatus
     \<times> ComplianceWarning list \<times> UsbDataStatus list" where
  "role_fields p =
     (portName p, currentMode p, currentPowerRole p, currentDataRole p, powerBrickStatus p,
      complianceWarnings p, usbDataStatus p)"

text \<open>
  The three role queries that \<^verbatim>\<open>getPortStatusHelper\<close> makes for a port all return
  \<^verbatim>\<open>SUCCESS\<close>.
\<close>

definition roles_resolved :: "usb \<Rightarrow> string \<times> bool \<Rightarrow> bool" where
  "roles_resolved u port =
     (fst (getCurrentRoleHelper (fst port) (snd port) (powerRole PortPowerRole_NONE) u) = SUCCESS
      \<and> fst (getCurrentRoleHelper (fst port) (snd port) (dataRole PortDataRole_NONE) u) = SUCCESS
      \<and> fst (getCurrentRoleHelper (fst port) (snd port) (mode PortMode_NONE) u) = SUCCESS)"

text \<open>
  The warnings that the compliance step reads from the reasons file of a port; none when
  the file cannot be read.
\<close>

definition port_file_warnings :: "usb \<Rightarrow> string \<Rightarrow> ComplianceWarning list" where
  "port_file_warnings u name =
     (case ReadFileToString
             (c_str (kTypecPath @ ''/'' @ name @ ''/'' @ kComplianceWarningsPath)) u of
        Some reasons \<Rightarrow> reasons_warnings u reasons
      | None \<Rightarrow> [])"

text \<open>The vector that \<^verbatim>\<open>queryVersionHelper\<close> hands to the callback; empty after a fault.\<close>

definition snapshot_of :: "usb \<Rightarrow> PortStatus list" where
  "snapshot_of u = (case queryVersionHelper u [] of Inr (u', v) \<Rightarrow> v | Inl e \<Rightarrow> [])"

section \<open>Properties\<close>

lemmas string_defs = c_str_def NUL_def Trim_def isspace_def find_char_def substr_def
  extractRole_def starts_with_def strtok_def

lemmas k_defs = kTypecPath_def kComplianceWarningsPath_def kComplianceWarningBC12_def
  kComplianceWarningDebugAccessory_def kComplianceWarningMissingRp_def
  kComplianceWarningOther_def kComplianceWarningInputPowerLimited_def
  kContaminantDetectionPath_def kStatusPath_def kSinkLimitEnable_def kSourceLimitEnable_def
  kSinkLimitCurrent_def kPogoUsbActive_def KPogoMoveDataToUsb_def kPowerSupplyUsbType_def
  kOverheatStatsPath_def kOverheatStatsDev_def

subsection \<open>Compliance warnings\<close>

lemma reasons_bc12_missing_rp:
  "reasons_warnings u ''[bc12], [missing_rp]''
     = [ComplianceWarning_BC_1_2, ComplianceWarning_MISSING_RP]"
  by (simp add: reasons_warnings_def reason_warning_def Tokenize.simps string_defs k_defs
      List.map_filter_simps)

lemma reasons_other:
  "reasons_warnings u ''[other]''
     = (if enable_usb_data_compliance_warning u \<and> enable_input_power_limited_warning u
        then [ComplianceWarning_INPUT_POWER_LIMITED] else [ComplianceWarning_OTHER])"
  by (simp add: reasons_warnings_def reason_warning_def Tokenize.simps string_defs k_defs
      List.map_filter_simps)

lemma reasons_input_power_limited:
  "reasons_warnings u ''[input_power_limited]''
     = (if enable_usb_data_compliance_warning u \<and> enable_input_power_limited_warning u
        then [ComplianceWarning_INPUT_POWER_LIMITED] else [ComplianceWarning_OTHER])"
  by (simp add: reasons_warnings_def reason_warning_def Tokenize.simps string_defs k_defs
      List.map_filter_simps)

lemma host_reasons_read:
  "ReadFileToString
     (c_str (kTypecPath @ ''/'' @ portName port0_entry @ ''/'' @ kComplianceWarningsPath))
     ((host_reasons r)\<lparr>enable_input_power_limited_warning := a,
                        enable_usb_data_compliance_warning := b\<rparr>) = Some r"
  by (simp add: ReadFileToString_def host_reasons_def host0_def port0_entry_def
      PortStatus_default_def string_defs k_defs)

text \<open>
  Claim C4, as stated, fails where it takes the input-power-limited toggle alone to
  split the two warnings: with \<^verbatim>\<open>enable_input_power_limited_warning\<close> on and
  \<^verbatim>\<open>enable_usb_data_compliance_warning\<close> off, the reasons file
  \<^verbatim>\<open>[input_power_limited]\<close> gives the warning \<^verbatim>\<open>OTHER\<close> for the port.
\<close>

theorem tokenization_one_toggle_counterexample:
  "enable_input_power_limited_warning
     ((host_reasons ''[input_power_limited]'')\<lparr>enable_input_power_limited_warning := True\<rparr>)
   \<and> complianceWarnings
       (queryNonCompliantChargerStatus_port
          ((host_reasons ''[input_power_limited]'')\<lparr>enable_input_power_limited_warning := True\<rparr>)
          port0_entry)
     = [ComplianceWarning_OTHER]"
  by (simp add: queryNonCompliantChargerStatus_port_def reasons_input_power_limited
      ReadFileToString_def host_reasons_def host0_def port0_entry_def PortStatus_default_def
      string_defs k_defs)

text \<open>
  Claim C4, amended: for a port whose warning list is still empty and whose reasons file
  can be read, the content \<^verbatim>\<open>[bc12], [missing_rp]\<close> gives the warnings
  \<^verbatim>\<open>BC_1_2\<close> and \<^verbatim>\<open>MISSING_RP\<close>; the content \<^verbatim>\<open>[other]\<close> gives \<^verbatim>\<open>OTHER\<close> unless
  both feature flags, \<^verbatim>\<open>enable_usb_data_compliance_warning\<close> and
  \<^verbatim>\<open>enable_input_power_limited_warning\<close>, are on; and when both are on the content
  \<^verbatim>\<open>[input_power_limited]\<close> gives \<^verbatim>\<open>INPUT_POWER_LIMITED\<close>.
\<close>

theorem tokenization:
  assumes "ReadFileToString
             (c_str (kTypecPath @ ''/'' @ portName p @ ''/'' @ kComplianceWarningsPath)) u
           = Some reasons"
    and "complianceWarnings p = []"
  shows "(reasons = ''[bc12], [missing_rp]'' \<longrightarrow>
            complianceWarnings (queryNonCompliantChargerStatus_port u p)
              = [ComplianceWarning_BC_1_2, ComplianceWarning_MISSING_RP])
       \<and> (reasons = ''[other]''
            \<and> \<not> (enable_usb_data_compliance_warning u \<and> enable_input_power_limited_warning u) \<longrightarrow>
            complianceWarnings (queryNonCompliantChargerStatus_port u p)
              = [ComplianceWarning_OTHER])
       \<and> (reasons = ''[input_power_limited]''
            \<and> enable_usb_data_compliance_warning u \<and> enable_input_power_limited_warning u \<longrightarrow>
            complianceWarnings (queryNonCompliantChargerStatus_port u p)
              = [ComplianceWarning_INPUT_POWER_LIMITED])"
  using assms
  by (auto simp add: queryNonCompliantChargerStatus_port_def Let_def reasons_bc12_missing_rp
      reasons_other reasons_input_power_limited)

theorem tokenization_witness:
  "complianceWarnings (queryNonCompliantChargerStatus_port
      (host_reasons ''[bc12], [missing_rp]'') port0_entry)
     = [ComplianceWarning_BC_1_2, ComplianceWarning_MISSING_RP]
   \<and> complianceWarnings (queryNonCompliantChargerStatus_port
      (host_reasons ''[other]'') port0_entry) = [ComplianceWarning_OTHER]
   \<and> complianceWarnings (queryNonCompliantChargerStatus_port
      ((host_reasons ''[input_power_limited]'')
         \<lparr>enable_input_power_limited_warning := True,
          enable_usb_data_compliance_warning := True\<rparr>) port0_entry)
     = [ComplianceWarning_INPUT_POWER_LIMITED]"
proof -
  have e: "complianceWarnings port0_entry = []"
    by (simp add: port0_entry_def PortStatus_default_def)
  have f: "\<not> enable_input_power_limited_warning (host_reasons r)" for r
    by (simp add: host_reasons_def host0_def)
  have r0: "ReadFileToString
     (c_str (kTypecPath @ ''/'' @ portName port0_entry @ ''/'' @ kComplianceWarningsPath))
     (host_reasons r) = Some r" for r
    by (simp add: ReadFileToString_def host_reasons_def host0_def port0_entry_def
        PortStatus_default_def string_defs k_defs)
  show ?thesis
    using tokenization [OF r0 e, of "''[bc12], [missing_rp]''"]
      tokenization [OF r0 e, of "''[other]''"] f
      tokenization [OF host_reasons_read e, of "''[input_power_limited]''" True True]
    by simp
qed

subsection \<open>The partner wait\<close>

lemma wait_again_expires:
  "expires T (sched k) \<Longrightarrow> wait_again T sched k t = Some (False, t + T * 1000000000, Suc k)"
  by (subst wait_again.simps)
     (auto simp: expires_def pthread_cond_timedwait_def split: wake.splits)

lemma wait_again_spurious_step:
  "spurious T (sched k) \<Longrightarrow>
     wait_again T sched k t = wait_again T sched (Suc k) (t + wake_delay (sched k))"
  by (subst wait_again.simps)
     (auto simp: spurious_def wake_delay_def pthread_cond_timedwait_def split: wake.splits)

lemma wait_again_timeout:
  "(\<forall>j<n. spurious T (sched (k + j))) \<Longrightarrow> expires T (sched (k + n)) \<Longrightarrow>
     wait_again T sched k t
       = Some (False, t + (\<Sum>j<n. wake_delay (sched (k + j))) + T * 1000000000, Suc (k + n))"
proof (induction n arbitrary: k t)
  case 0
  then show ?case by (simp add: wait_again_expires)
next
  case (Suc n)
  from Suc.prems(1) have s0: "spurious T (sched k)"
    by (metis add.right_neutral zero_less_Suc)
  have rest: "\<forall>j<n. spurious T (sched (Suc k + j))"
    using Suc.prems(1) by (metis add_Suc_shift Suc_less_eq)
  have ex: "expires T (sched (Suc k + n))"
    using Suc.prems(2) by simp
  have "(\<Sum>j<Suc n. wake_delay (sched (k + j)))
          = wake_delay (sched k) + (\<Sum>j<n. wake_delay (sched (Suc k + j)))"
    by (simp add: sum.lessThan_Suc_shift del: sum.lessThan_Suc)
  then show ?case
    using Suc.IH [OF rest ex, of "t + wake_delay (sched k)"] s0
    by (simp add: wait_again_spurious_step)
qed

lemma spurious_delays_bound:
  "(\<forall>j<n. spurious T (sched (k + j))) \<Longrightarrow>
     (\<Sum>j<n. wake_delay (sched (k + j))) \<le> n * (T * 1000000000)"
proof (induction n)
  case 0
  then show ?case by simp
next
  case (Suc n)
  then have "spurious T (sched (k + n))" by simp
  then have "wake_delay (sched (k + n)) \<le> T * 1000000000"
    by (auto simp: spurious_def wake_delay_def split: wake.splits)
  moreover have "(\<Sum>j<n. wake_delay (sched (k + j))) \<le> n * (T * 1000000000)"
    using Suc by simp
  ultimately show ?case by simp
qed

text \<open>
  Claim C2, as stated, fails: the deadline is not computed once. With a timeout of eight
  seconds, a wait begun at time 0 and woken spuriously after seven seconds ends, with
  \<^verbatim>\<open>ETIMEDOUT\<close>, at fifteen seconds, after the deadline of the first wait.
\<close>

theorem partner_wait_single_deadline_counterexample:
  "wait_again 8 (\<lambda>k. if k = 0 then Signal 7000000000 False else Quiet) 0 0
     = Some (False, 15000000000, 2)
   \<and> \<not> (15000000000 \<le> (0::nat) + 8 * 1000000000)"
  by (simp add: wait_again.simps pthread_cond_timedwait_def)

text \<open>
  Claim C2, amended: every wait of the loop has a deadline of its own, the time at which
  the wait begins plus the full timeout. When \<open>n\<close> spurious wake-ups are followed by a
  wait that expires, the loop ends unsuccessfully one full timeout after the last
  spurious wake-up; the whole wait is bounded by \<open>n + 1\<close> timeouts, not by one.
\<close>

theorem partner_wait_deadline_restarts:
  assumes "\<forall>j<n. spurious T (sched (k + j))"
    and "expires T (sched (k + n))"
  shows "wait_again T sched k t
           = Some (False, t + (\<Sum>j<n. wake_delay (sched (k + j))) + T * 1000000000, Suc (k + n))
         \<and> (\<Sum>j<n. wake_delay (sched (k + j))) \<le> n * (T * 1000000000)"
  using wait_again_timeout [OF assms] spurious_delays_bound [OF assms(1)] by simp

theorem partner_wait_deadline_restarts_witness:
  "wait_again 8 (partner_sched host_spurious) 0 0 = Some (False, 7000000000 + 8 * 1000000000, 2)"
proof -
  have s: "\<forall>j<1. spurious 8 (partner_sched host_spurious (0 + j))"
    by (simp add: spurious_def host_spurious_def host0_def)
  have e: "expires 8 (partner_sched host_spurious (0 + 1))"
    by (simp add: expires_def host_spurious_def host0_def)
  show ?thesis
    using partner_wait_deadline_restarts [OF s e, of 0]
    by (simp add: wake_delay_def host_spurious_def host0_def)
qed

subsection \<open>Mode switch without a partner\<close>

lemma c_str_id: "NUL \<notin> set s \<Longrightarrow> c_str s = s"
  by (auto simp: c_str_def)

lemma c_str_no_nul: "NUL \<notin> set (c_str s)"
  by (auto simp: c_str_def dest: set_takeWhileD)

lemma port_type_node_c_str: "c_str (port_type_node p) = port_type_node p"
  by (rule c_str_id)
     (use c_str_no_nul [of p] in \<open>auto simp: port_type_node_def appendRoleNodeHelper_def NUL_def\<close>)

lemma port_type_node_ne: "port_type_node p \<noteq> []"
  by (simp add: port_type_node_def appendRoleNodeHelper_def)

lemma switchToDrp_eq:
  "fopen_ok u (port_type_node p) \<Longrightarrow>
   switchToDrp p u =
     (if fputs_ret u (port_type_node p) ''dual'' \<noteq> EOF
      then u\<lparr>hw_writes := hw_writes u @ [(port_type_node p, ''dual'')],
             files := (files u)(port_type_node p \<mapsto> ''dual'')\<rparr>
      else u\<lparr>hw_writes := hw_writes u @ [(port_type_node p, ''dual'')]\<rparr>)"
  by (simp add: switchToDrp_def port_type_node_def [symmetric] port_type_node_ne fopen_w_def
      port_type_node_c_str fputs_def fclose_def Let_def)

lemma switchToDrp_closed: "\<not> fopen_ok u (port_type_node p) \<Longrightarrow> switchToDrp p u = u"
  by (simp add: switchToDrp_def port_type_node_def [symmetric] port_type_node_c_str
      fopen_w_def Let_def)

lemma switchToDrp_fields:
  "fopen_ok (switchToDrp p u) = fopen_ok u" "fputs_ret (switchToDrp p u) = fputs_ret u"
  "mCallback (switchToDrp p u) = mCallback u" "delivered (switchToDrp p u) = delivered u"
  by (auto simp: switchToDrp_def fopen_w_def fputs_def fclose_def Let_def split: option.splits)

lemma switchToDrp_idem: "files (switchToDrp p (switchToDrp p u)) = files (switchToDrp p u)"
proof (cases "fopen_ok u (port_type_node p)")
  case True
  then have "fopen_ok (switchToDrp p u) (port_type_node p)"
    by (simp add: switchToDrp_fields)
  then show ?thesis
    by (subst switchToDrp_eq, assumption) (simp add: switchToDrp_fields True switchToDrp_eq)
next
  case False
  then show ?thesis by (simp add: switchToDrp_closed)
qed

lemma switchToDrp_notify: "switchToDrp p (notify x y) = notify x (switchToDrp p y)"
  by (simp add: notify_def switchToDrp_def fopen_w_def fputs_def fclose_def Let_def
      split: option.splits)

lemma switchMode_timeout:
  assumes op: "fopen_ok u (port_type_node p)"
    and put: "fputs_ret u (port_type_node p) (convertRoletoString (mode m)) \<noteq> EOF"
    and sp: "\<forall>j<n. spurious (PORT_TYPE_TIMEOUT h) (partner_sched u (waits u + j))"
    and ex: "expires (PORT_TYPE_TIMEOUT h) (partner_sched u (waits u + n))"
  shows "\<exists>u2. switchMode h p (mode m) u = Some (False, switchToDrp p u2)
            \<and> fopen_ok u2 = fopen_ok u \<and> fputs_ret u2 = fputs_ret u
            \<and> mCallback u2 = mCallback u \<and> delivered u2 = delivered u"
proof -
  have ne: "convertRoletoString (mode m) \<noteq> []"
    by (simp add: convertRoletoString_def)
  show ?thesis
    using op put wait_again_timeout [OF sp ex]
    apply (simp add: switchMode_def port_type_node_def [symmetric] port_type_node_ne fopen_w_def
        port_type_node_c_str fputs_def fclose_def Let_def ne)
    apply (rule exI)
    apply (intro conjI)
        apply (rule refl)
       apply simp_all
    done
qed

text \<open>
  Claim C1: a mode switch whose write to the port's mode node succeeds and whose wait
  sees no partner before it expires (any number of spurious wake-ups, then a wait that
  runs out) returns, reports \<^verbatim>\<open>ERROR\<close> to the subscriber if there is one, and before
  that hands \<^verbatim>\<open>dual\<close> to the port's mode node as its last write; where the node accepts
  it the node holds \<^verbatim>\<open>dual\<close>. Writing the default once more leaves the store of the
  host as it is.
\<close>

theorem mode_switch_timeout:
  assumes op: "fopen_ok u (port_type_node p)"
    and put: "fputs_ret u (port_type_node p) (convertRoletoString (mode m)) \<noteq> EOF"
    and sp: "\<forall>j<n. spurious (PORT_TYPE_TIMEOUT h) (partner_sched u (waits u + j))"
    and ex: "expires (PORT_TYPE_TIMEOUT h) (partner_sched u (waits u + n))"
  shows "\<exists>u'. switchRole h p (mode m) t u = Some u'
           \<and> (mCallback u \<longrightarrow>
                delivered u' = delivered u @ [notifyRoleSwitchStatus p (mode m) ERROR t])
           \<and> (\<not> mCallback u \<longrightarrow> delivered u' = delivered u)
           \<and> last (hw_writes u') = (port_type_node p, ''dual'')
           \<and> (fputs_ret u (port_type_node p) ''dual'' \<noteq> EOF \<longrightarrow>
                files u' (port_type_node p) = Some ''dual'')
           \<and> files (switchToDrp p u') = files u'"
proof -
  from switchMode_timeout [OF op put sp ex] obtain u2 where
    sm: "switchMode h p (mode m) u = Some (False, switchToDrp p u2)"
    and f: "fopen_ok u2 = fopen_ok u" "fputs_ret u2 = fputs_ret u"
           "mCallback u2 = mCallback u" "delivered u2 = delivered u"
    by blast
  define u' where "u' = notify (notifyRoleSwitchStatus p (mode m) ERROR t) (switchToDrp p u2)"
  have sr: "switchRole h p (mode m) t u = Some u'"
    by (simp add: switchRole_def port_type_node_def [symmetric] port_type_node_ne sm u'_def
        Let_def)
  have op2: "fopen_ok u2 (port_type_node p)"
    using op f by simp
  have d: "delivered u' =
      (if mCallback u then delivered u @ [notifyRoleSwitchStatus p (mode m) ERROR t]
       else delivered u)"
    by (simp add: u'_def notify_def switchToDrp_fields f)
  have w: "last (hw_writes u') = (port_type_node p, ''dual'')"
    by (simp add: u'_def notify_def switchToDrp_eq [OF op2])
  have fl: "fputs_ret u (port_type_node p) ''dual'' \<noteq> EOF \<Longrightarrow>
      files u' (port_type_node p) = Some ''dual''"
    by (simp add: u'_def notify_def switchToDrp_eq [OF op2] f)
  have fn: "files (notify x y) = files y" for x y
    by (simp add: notify_def)
  have idem: "files (switchToDrp p u') = files u'"
    unfolding u'_def switchToDrp_notify fn by (rule switchToDrp_idem)
  show ?thesis
    using sr d w fl idem by auto
qed

theorem mode_switch_timeout_witness:
  "\<exists>u'. switchRole usb_h0 ''port0'' (mode PortMode_DFP) 7 host_spurious = Some u'
     \<and> delivered u' = [notifyRoleSwitchStatus ''port0'' (mode PortMode_DFP) ERROR 7]
     \<and> last (hw_writes u') = (''/sys/class/typec/port0/port_type'', ''dual'')
     \<and> files u' ''/sys/class/typec/port0/port_type'' = Some ''dual''
     \<and> files (switchToDrp ''port0'' u') = files u'"
proof -
  have node: "port_type_node ''port0'' = ''/sys/class/typec/port0/port_type''"
    by (simp add: port_type_node_def appendRoleNodeHelper_def string_defs)
  have op: "fopen_ok host_spurious (port_type_node ''port0'')"
    by (simp add: host_spurious_def host0_def)
  have put: "fputs_ret host_spurious (port_type_node ''port0'')
      (convertRoletoString (mode PortMode_DFP)) \<noteq> EOF"
    by (simp add: host_spurious_def host0_def EOF_def)
  have sp: "\<forall>j<1. spurious (PORT_TYPE_TIMEOUT usb_h0)
      (partner_sched host_spurious (waits host_spurious + j))"
    by (simp add: spurious_def host_spurious_def host0_def usb_h0_def)
  have ex: "expires (PORT_TYPE_TIMEOUT usb_h0)
      (partner_sched host_spurious (waits host_spurious + 1))"
    by (simp add: expires_def host_spurious_def host0_def usb_h0_def)
  have cb: "mCallback host_spurious" "delivered host_spurious = []"
    "fputs_ret host_spurious (port_type_node ''port0'') ''dual'' \<noteq> EOF"
    by (simp_all add: host_spurious_def host0_def EOF_def)
  show ?thesis
    using mode_switch_timeout [OF op put sp ex, of 7] cb
    by (simp add: node)
qed

subsection \<open>The partner event\<close>

lemma split_nul_single: "NUL \<notin> set cp \<Longrightarrow> split_nul cp = [cp]"
  by (induction cp) auto

lemma uevent_records_single: "NUL \<notin> set cp \<Longrightarrow> cp \<noteq> [] \<Longrightarrow> uevent_records cp = [cp]"
  by (simp add: uevent_records_def split_nul_single)

text \<open>
  Claim C9: a record that matches the partner pattern sets \<^verbatim>\<open>mPartnerUp\<close>, signals the
  partner condition once and changes nothing else of the service: no snapshot is
  computed and nothing is delivered. The loop goes on to the next record; a message
  that consists of this record alone ends there.
\<close>

theorem partner_attach_record:
  assumes "partner_added cp"
  shows "\<exists>u'. uevent_record cp u = Inr (False, u')
           \<and> mPartnerUp u' \<and> cv_signals u' = cv_signals u + 1
           \<and> u'\<lparr>mPartnerUp := mPartnerUp u, cv_signals := cv_signals u\<rparr> = u
           \<and> (NUL \<notin> set cp \<and> length cp < UEVENT_MSG_LEN h \<longrightarrow> uevent_event h cp u = Inr u')"
proof -
  from assms have ne: "cp \<noteq> []"
    by (auto simp: partner_added_def)
  show ?thesis
    using assms ne by (auto simp: uevent_record_def uevent_event_def uevent_records_single)
qed

theorem partner_attach_record_witness:
  "uevent_event usb_h0 ''add@/class/typec/port0-partner'' host0
     = Inr (host0\<lparr>mPartnerUp := True, cv_signals := 1\<rparr>)"
proof -
  have pa: "partner_added ''add@/class/typec/port0-partner''"
    by (simp add: partner_added_def)
  have cv: "cv_signals host0 = 0"
    by (simp add: host0_def)
  have r: "uevent_record ''add@/class/typec/port0-partner'' host0
      = Inr (False, host0\<lparr>mPartnerUp := True, cv_signals := 1\<rparr>)"
    by (simp add: uevent_record_def pa cv)
  have len: "NUL \<notin> set ''add@/class/typec/port0-partner''
      \<and> length ''add@/class/typec/port0-partner'' < UEVENT_MSG_LEN usb_h0"
    by (simp add: NUL_def usb_h0_def)
  from partner_attach_record [OF pa, of host0 usb_h0] len obtain u' where
    "uevent_record ''add@/class/typec/port0-partner'' host0 = Inr (False, u')"
    "uevent_event usb_h0 ''add@/class/typec/port0-partner'' host0 = Inr u'"
    by blast
  with r show ?thesis by simp
qed

subsection \<open>A snapshot without ports\<close>

lemma no_typec_ports: "getPortStatusHelper host_no_typec [] = Inr (ERROR, [])"
  by (simp add: getPortStatusHelper_def getTypeCPortNamesHelper_def host_no_typec_def)

lemma empty_typec_ports: "getPortStatusHelper host_empty_typec [] = Inr (SUCCESS, [])"
  by (simp add: getPortStatusHelper_def unordered_iteration_def getTypeCPortNamesHelper_def
      host_empty_typec_def host0_def readdir_step_def resize_def k_defs)

lemma moisture_empty: "queryMoistureDetectionStatus u [] = Inl (vector_out_of_range 0)"
  by (simp add: queryMoistureDetectionStatus_def)

text \<open>
  Claim C6 does not hold of the code. When \<^verbatim>\<open>/sys/class/typec\<close> cannot be opened the
  first step reports \<^verbatim>\<open>ERROR\<close> and leaves the vector empty, but the next step indexes the
  empty vector: \<^verbatim>\<open>queryPortStatus\<close> ends there, and the subscriber of the host receives
  nothing, neither a snapshot with \<^verbatim>\<open>ERROR\<close> nor the outcome of the query.
\<close>

theorem enumeration_failure_not_delivered:
  "mCallback host_no_typec
   \<and> getPortStatusHelper host_no_typec [] = Inr (ERROR, [])
   \<and> queryPortStatus t host_no_typec = Inl (vector_out_of_range 0, host_no_typec)
   \<and> delivered (reached (queryPortStatus t host_no_typec)) = []"
proof -
  have q: "queryPortStatus t host_no_typec = Inl (vector_out_of_range 0, host_no_typec)"
    by (simp add: queryPortStatus_def queryVersionHelper_def no_typec_ports moisture_empty)
  have c: "mCallback host_no_typec" "delivered host_no_typec = []"
    by (simp_all add: host_no_typec_def host0_def)
  show ?thesis
    using c by (simp add: q no_typec_ports reached_def)
qed

text \<open>
  Claim C10 does not hold of the code. The moisture step reads index 0 of the vector
  first thing, whatever the first step left there: after a failed enumeration, and
  after an enumeration that found no port, the vector is empty and the access is out
  of range.
\<close>

theorem index_zero_on_empty_vector:
  "queryVersionHelper host_no_typec [] = Inl (vector_out_of_range 0, host_no_typec)
   \<and> queryVersionHelper host_empty_typec [] = Inl (vector_out_of_range 0, host_empty_typec)"
  by (simp add: queryVersionHelper_def no_typec_ports empty_typec_ports moisture_empty)

subsection \<open>What the steps of a snapshot leave alone\<close>

lemma map_update0:
  "f x = f (v ! 0) \<Longrightarrow> map f (v[0 := x]) = map f v"
  by (cases v) auto

lemma moisture_frame:
  assumes "queryMoistureDetectionStatus u v = Inr (st, u', v')"
  shows "u'\<lparr>mI2cClientPath := [], enabledPath := []\<rparr> = u\<lparr>mI2cClientPath := [], enabledPath := []\<rparr>
       \<and> map role_fields v' = map role_fields v \<and> v \<noteq> []"
  using assms
  by (auto simp: queryMoistureDetectionStatus_def Let_def map_update0 role_fields_def
      split: if_splits option.splits)

lemma power_frame:
  assumes "queryPowerTransferStatus u v = Inr (st, u', v')"
  shows "u'\<lparr>mI2cClientPath := [], enabledPath := []\<rparr> = u\<lparr>mI2cClientPath := [], enabledPath := []\<rparr>
       \<and> map role_fields v' = map role_fields v"
  using assms
  by (auto simp: queryPowerTransferStatus_def Let_def map_update0 role_fields_def
      split: if_splits option.splits)

lemma frame_fields:
  assumes "u'\<lparr>mI2cClientPath := [], enabledPath := []\<rparr> = u\<lparr>mI2cClientPath := [], enabledPath := []\<rparr>"
  shows "files u' = files u" "mCallback u' = mCallback u" "delivered u' = delivered u"
    "mUsbDataEnabled u' = mUsbDataEnabled u" "session_warnings u' = session_warnings u"
    "enable_usb_data_compliance_warning u' = enable_usb_data_compliance_warning u"
    "enable_input_power_limited_warning u' = enable_input_power_limited_warning u"
    "fopen_ok u' = fopen_ok u" "fputs_ret u' = fputs_ret u" "dirs u' = dirs u"
proof -
  show "files u' = files u" using arg_cong [OF assms, of files] by simp
  show "mCallback u' = mCallback u" using arg_cong [OF assms, of mCallback] by simp
  show "delivered u' = delivered u" using arg_cong [OF assms, of delivered] by simp
  show "mUsbDataEnabled u' = mUsbDataEnabled u" using arg_cong [OF assms, of mUsbDataEnabled] by simp
  show "session_warnings u' = session_warnings u" using arg_cong [OF assms, of session_warnings] by simp
  show "enable_usb_data_compliance_warning u' = enable_usb_data_compliance_warning u"
    using arg_cong [OF assms, of enable_usb_data_compliance_warning] by simp
  show "enable_input_power_limited_warning u' = enable_input_power_limited_warning u"
    using arg_cong [OF assms, of enable_input_power_limited_warning] by simp
  show "fopen_ok u' = fopen_ok u" using arg_cong [OF assms, of fopen_ok] by simp
  show "fputs_ret u' = fputs_ret u" using arg_cong [OF assms, of fputs_ret] by simp
  show "dirs u' = dirs u" using arg_cong [OF assms, of dirs] by simp
qed

lemma port_roles_keeps:
  "port_roles u name conn p = Inr (ok, p') \<Longrightarrow>
     complianceWarnings p' = complianceWarnings p \<and> usbDataStatus p' = usbDataStatus p"
  by (auto simp: port_roles_def Let_def split: if_splits prod.splits sum.splits)

lemma port_rest_keeps:
  "port_rest u name conn p = Inr p' \<Longrightarrow> complianceWarnings p' = complianceWarnings p"
  by (auto simp: port_rest_def port_data_status_def port_power_brick_def Let_def
      split: if_splits option.splits sum.splits)


lemma port_roles_ok:
  "port_roles u name conn p = Inr (ok, p') \<Longrightarrow> ok = roles_resolved u (name, conn)"
  by (auto simp: port_roles_def roles_resolved_def Let_def split: if_splits prod.splits sum.splits)

lemma ports_loop_status:
  "ports_loop u names i v = Inr (st, v') \<Longrightarrow>
     (st = SUCCESS \<longleftrightarrow> list_all (roles_resolved u) names) \<and> length v' = length v"
proof (induction names arbitrary: i v)
  case Nil
  then show ?case by simp
next
  case (Cons port names)
  then show ?case
    by (auto split: sum.splits prod.splits if_splits dest: port_roles_ok)
qed

lemma ports_loop_warnings:
  "ports_loop u names i v = Inr (st, v') \<Longrightarrow> i + length names \<le> length v \<Longrightarrow>
     \<forall>p\<in>set v. complianceWarnings p = [] \<Longrightarrow> \<forall>p\<in>set v'. complianceWarnings p = []"
proof (induction names arbitrary: i v)
  case Nil
  then show ?case by simp
next
  case (Cons port names)
  from Cons.prems(2) have i: "i < length v" by simp
  then have vi: "complianceWarnings (v ! i) = []" using Cons.prems(3) by simp
  show ?case
  proof (cases "port_roles u (fst port) (snd port) (v ! i)")
    case (Inl f)
    with Cons.prems(1) show ?thesis by simp
  next
    case (Inr r)
    obtain ok p where r: "r = (ok, p)" by (cases r)
    have p: "complianceWarnings p = []"
      using port_roles_keeps Inr r vi by fastforce
    show ?thesis
    proof (cases ok)
      case False
      with Cons.prems(1) Inr r have "v' = v[i := p]" by simp
      then show ?thesis using p Cons.prems(3) by (auto dest: set_update_subset_insert [THEN subsetD])
    next
      case True
      show ?thesis
      proof (cases "port_rest u (fst port) (snd port) p")
        case (Inl f)
        with Cons.prems(1) Inr r True show ?thesis by simp
      next
        case (Inr p')
        have p': "complianceWarnings p' = []"
          using port_rest_keeps [OF Inr] p by simp
        have rec: "ports_loop u names (Suc i) (v[i := p']) = Inr (st, v')"
          using Cons.prems(1) \<open>port_roles u (fst port) (snd port) (v ! i) = Inr r\<close> r True Inr by simp
        have all: "\<forall>q\<in>set (v[i := p']). complianceWarnings q = []"
          using p' Cons.prems(3) by (auto dest: set_update_subset_insert [THEN subsetD])
        show ?thesis
          using Cons.IH [OF rec _ all] Cons.prems(2) by simp
      qed
    qed
  qed
qed

lemma resize_empty: "resize [] n = replicate n PortStatus_default"
  by (simp add: resize_def)


lemma length_unordered_iteration: "length (unordered_iteration u names) = length names"
  by (simp add: unordered_iteration_def)

lemma set_unordered_iteration: "set (unordered_iteration u names) = set names"
  by (simp add: unordered_iteration_def)

lemma getPortStatusHelper_loop:
  assumes "getPortStatusHelper u [] = Inr (st, v)"
    and "fst (getTypeCPortNamesHelper [] u) = SUCCESS"
  shows "ports_loop u (unordered_iteration u (snd (getTypeCPortNamesHelper [] u))) 0
           (replicate (length (unordered_iteration u (snd (getTypeCPortNamesHelper [] u))))
              PortStatus_default) = Inr (st, v)"
  using assms
  by (auto simp: getPortStatusHelper_def resize_empty length_unordered_iteration
      split: prod.splits if_splits)

lemma getPortStatusHelper_failed:
  assumes "getPortStatusHelper u [] = Inr (st, v)"
    and "fst (getTypeCPortNamesHelper [] u) \<noteq> SUCCESS"
  shows "st = ERROR" "v = []"
  using assms
  by (auto simp: getPortStatusHelper_def split: prod.splits if_splits)


lemma getPortStatusHelper_warnings:
  assumes "getPortStatusHelper u [] = Inr (st, v)"
  shows "\<forall>p\<in>set v. complianceWarnings p = []"
proof (cases "fst (getTypeCPortNamesHelper [] u) = SUCCESS")
  case True
  show ?thesis
    by (rule ports_loop_warnings [OF getPortStatusHelper_loop [OF assms True]])
       (simp_all add: PortStatus_default_def)
next
  case False
  then show ?thesis
    using getPortStatusHelper_failed(2) [OF assms] by simp
qed


lemma session_keeps:
  assumes "queryUsbDataSession u v = Inr v'"
  shows "map usbDataStatus v' = map usbDataStatus v"
    and "map currentMode v' = map currentMode v"
    and "map currentPowerRole v' = map currentPowerRole v"
    and "map currentDataRole v' = map currentDataRole v"
    and "map powerBrickStatus v' = map powerBrickStatus v"
  using assms
  by (auto simp: queryUsbDataSession_def map_update0 split: if_splits)

lemma queryVersionHelper_steps:
  assumes "queryVersionHelper u v = Inr (u', v5)"
  shows "\<exists>st v1 st2 u2 v2 st3 u3 v3.
           getPortStatusHelper u v = Inr (st, v1)
           \<and> queryMoistureDetectionStatus u v1 = Inr (st2, u2, v2)
           \<and> queryPowerTransferStatus u2 v2 = Inr (st3, u3, v3)
           \<and> queryUsbDataSession u3 (snd (queryNonCompliantChargerStatus u3 v3)) = Inr v5
           \<and> u' = notify (notifyPortStatusChange v5 st) u3"
proof -
  obtain st v1 where g: "getPortStatusHelper u v = Inr (st, v1)"
    using assms by (cases "getPortStatusHelper u v") (auto simp: queryVersionHelper_def)
  obtain st2 u2 v2 where m: "queryMoistureDetectionStatus u v1 = Inr (st2, u2, v2)"
    using assms g
    by (cases "queryMoistureDetectionStatus u v1") (auto simp: queryVersionHelper_def)
  obtain st3 u3 v3 where p: "queryPowerTransferStatus u2 v2 = Inr (st3, u3, v3)"
    using assms g m
    by (cases "queryPowerTransferStatus u2 v2") (auto simp: queryVersionHelper_def)
  obtain st4 v4 where n: "queryNonCompliantChargerStatus u3 v3 = (st4, v4)"
    by (cases "queryNonCompliantChargerStatus u3 v3")
  obtain w where s: "queryUsbDataSession u3 v4 = Inr w"
    using assms g m p n
    by (cases "queryUsbDataSession u3 v4") (auto simp: queryVersionHelper_def)
  have "u' = notify (notifyPortStatusChange v5 st) u3 \<and> w = v5"
    using assms g m p n s by (auto simp: queryVersionHelper_def)
  with g m p n s show ?thesis by simp
qed


lemma role_fields_nth:
  assumes "map role_fields v' = map role_fields v" and "i < length v"
  shows "role_fields (v' ! i) = role_fields (v ! i)" and "length v' = length v"
proof -
  show l: "length v' = length v" using assms(1) by (rule map_eq_imp_length_eq)
  have "map role_fields v' ! i = map role_fields v ! i" using assms(1) by simp
  then show "role_fields (v' ! i) = role_fields (v ! i)" using assms(2) l by simp
qed






lemmas snap_defs = getPortStatusHelper_def unordered_iteration_def
  getTypeCPortNamesHelper_def readdir_step_def
  names_insert_def resize_def PortStatus_default_def port_roles_def port_rest_def
  getCurrentRoleHelper_def read_role_def role_of_name_def ReadFileToString_def
  getAccessoryConnected_def get_powerRole_def get_dataRole_def get_mode_def
  port_data_status_def port_power_brick_def canSwitchRoleHelper_def

lemmas qvh_defs = queryVersionHelper_def queryMoistureDetectionStatus_def
  queryPowerTransferStatus_def queryNonCompliantChargerStatus_def
  queryNonCompliantChargerStatus_port_def queryUsbDataSession_def notify_def

lemmas write_defs = WriteStringToFile_def fopen_w_def fputs_def fclose_def EOF_def

lemma noncompliant_port_synth:
  assumes "complianceWarnings p = []"
  shows "(complianceWarnings (queryNonCompliantChargerStatus_port u p) \<noteq> []
          \<and> currentPowerRole p = PortPowerRole_NONE \<longrightarrow>
            currentMode (queryNonCompliantChargerStatus_port u p) = PortMode_UFP
            \<and> currentPowerRole (queryNonCompliantChargerStatus_port u p) = PortPowerRole_SINK
            \<and> currentDataRole (queryNonCompliantChargerStatus_port u p) = PortDataRole_NONE
            \<and> powerBrickStatus (queryNonCompliantChargerStatus_port u p) = PowerBrickStatus_CONNECTED)
       \<and> (currentPowerRole p \<noteq> PortPowerRole_NONE \<longrightarrow>
            currentMode (queryNonCompliantChargerStatus_port u p) = currentMode p
            \<and> currentPowerRole (queryNonCompliantChargerStatus_port u p) = currentPowerRole p
            \<and> currentDataRole (queryNonCompliantChargerStatus_port u p) = currentDataRole p
            \<and> powerBrickStatus (queryNonCompliantChargerStatus_port u p) = powerBrickStatus p)"
  using assms
  by (auto simp: queryNonCompliantChargerStatus_port_def Let_def split: option.splits)

lemma map_nth_eq: "map f v' = map f v \<Longrightarrow> i < length v \<Longrightarrow> f (v' ! i) = f (v ! i)"
  by (metis length_map nth_map)

lemma compliance_step_roles:
  assumes g: "getPortStatusHelper u [] = Inr (st, v1)"
    and m: "queryMoistureDetectionStatus u v1 = Inr (st2, u2, v2)"
    and p: "queryPowerTransferStatus u2 v2 = Inr (st3, u3, v3)"
    and n: "queryNonCompliantChargerStatus u3 v3 = (st4, v4)"
    and s: "queryUsbDataSession u3 v4 = Inr v5"
    and i: "i < length v5"
  shows "(complianceWarnings (v4 ! i) \<noteq> [] \<and> currentPowerRole (v1 ! i) = PortPowerRole_NONE \<longrightarrow>
            currentMode (v5 ! i) = PortMode_UFP
            \<and> currentPowerRole (v5 ! i) = PortPowerRole_SINK
            \<and> currentDataRole (v5 ! i) = PortDataRole_NONE
            \<and> powerBrickStatus (v5 ! i) = PowerBrickStatus_CONNECTED)
       \<and> (currentPowerRole (v1 ! i) \<noteq> PortPowerRole_NONE \<longrightarrow>
            currentMode (v5 ! i) = currentMode (v1 ! i)
            \<and> currentPowerRole (v5 ! i) = currentPowerRole (v1 ! i)
            \<and> currentDataRole (v5 ! i) = currentDataRole (v1 ! i)
            \<and> powerBrickStatus (v5 ! i) = powerBrickStatus (v1 ! i))"
proof -
  have v4: "v4 = map (queryNonCompliantChargerStatus_port u3) v3"
    using n by (simp add: queryNonCompliantChargerStatus_def)
  have l5: "length v5 = length v4"
    using session_keeps(1) [OF s] by (rule map_eq_imp_length_eq)
  have r32: "map role_fields v3 = map role_fields v2"
    using power_frame [OF p] by simp
  have r21: "map role_fields v2 = map role_fields v1"
    using moisture_frame [OF m] by simp
  have l3: "length v3 = length v2"
    using r32 by (rule map_eq_imp_length_eq)
  have l2: "length v2 = length v1"
    using r21 by (rule map_eq_imp_length_eq)
  have i1: "i < length v1" "i < length v2" "i < length v3" "i < length v4"
    using i l5 l3 l2 v4 by simp_all
  have r3: "role_fields (v3 ! i) = role_fields (v1 ! i)"
    using map_nth_eq [OF r32 i1(2)] map_nth_eq [OF r21 i1(1)] by simp
  have "complianceWarnings (v1 ! i) = []"
    using getPortStatusHelper_warnings [OF g] i1(1) by simp
  with r3 have e: "complianceWarnings (v3 ! i) = []" by (simp add: role_fields_def)
  have n4: "v4 ! i = queryNonCompliantChargerStatus_port u3 (v3 ! i)"
    using v4 i1 by simp
  have f5: "currentMode (v5 ! i) = currentMode (v4 ! i)"
    "currentPowerRole (v5 ! i) = currentPowerRole (v4 ! i)"
    "currentDataRole (v5 ! i) = currentDataRole (v4 ! i)"
    "powerBrickStatus (v5 ! i) = powerBrickStatus (v4 ! i)"
    using session_keeps [OF s] i1(4) by (auto intro: map_nth_eq)
  from r3 have f3: "currentMode (v3 ! i) = currentMode (v1 ! i)"
    "currentPowerRole (v3 ! i) = currentPowerRole (v1 ! i)"
    "currentDataRole (v3 ! i) = currentDataRole (v1 ! i)"
    "powerBrickStatus (v3 ! i) = powerBrickStatus (v1 ! i)"
    by (simp_all add: role_fields_def)
  show ?thesis
    using noncompliant_port_synth [OF e, of u3] by (simp add: f5 n4 f3)
qed


lemma noncompliant_port_warnings:
  "complianceWarnings p = [] \<Longrightarrow>
     complianceWarnings (queryNonCompliantChargerStatus_port u p) = port_file_warnings u (portName p)"
  by (auto simp: queryNonCompliantChargerStatus_port_def port_file_warnings_def Let_def
      split: option.splits)

lemma port_file_warnings_frame:
  assumes "u'\<lparr>mI2cClientPath := [], enabledPath := []\<rparr> = u\<lparr>mI2cClientPath := [], enabledPath := []\<rparr>"
  shows "port_file_warnings u' name = port_file_warnings u name"
proof -
  have "reason_warning u' x = reason_warning u x" for x
    unfolding reason_warning_def frame_fields(6,7) [OF assms] by (rule refl)
  then have rw: "reason_warning u' = reason_warning u"
    by (rule ext)
  show ?thesis
    unfolding port_file_warnings_def ReadFileToString_def reasons_warnings_def rw
      frame_fields(1) [OF assms]
    by (rule refl)
qed


lemmas host_defs = host0_def host_role_def host_two_ports_def host_charger_def host_reasons_def usb_h0_def
  port0_entry_def forced_disable_def degraded_snapshot_def forced_snapshot_def

lemmas op_defs = enableUsbData_def enableUsbData_writes_def requery_def qvh_defs write_defs
  snap_defs string_defs k_defs


subsection \<open>Role queries that fail\<close>

lemma ports_loop_outcome:
  "ports_loop u names i v = Inr (st, v') \<Longrightarrow> st = SUCCESS \<or> st = ERROR"
  by (induction names arbitrary: i v) (auto split: sum.splits prod.splits if_splits)

lemma port_roles_failed:
  assumes "port_roles u name conn p = Inr (False, p')"
  shows "p'\<lparr>currentPowerRole := PortPowerRole_NONE, currentDataRole := PortDataRole_NONE\<rparr>
       = p\<lparr>portName := name, currentPowerRole := PortPowerRole_NONE,
           currentDataRole := PortDataRole_NONE\<rparr>"
  using assms
  by (auto simp: port_roles_def Let_def split: if_splits prod.splits sum.splits)

lemma port_roles_named:
  assumes "port_roles u name conn p = Inr (True, p')"
  shows "portName p' = name"
  using assms
  by (auto simp: port_roles_def Let_def split: if_splits prod.splits sum.splits)

lemma port_rest_filled:
  assumes "port_rest u name conn p = Inr p'"
  shows "portName p' = portName p \<and> canChangeMode p'"
  using assms
  by (auto simp: port_rest_def port_data_status_def port_power_brick_def Let_def
      split: if_splits option.splits sum.splits)

lemma ports_loop_stops:
  "ports_loop u names i v = Inr (st, v') \<Longrightarrow> i + length names \<le> length v \<Longrightarrow>
   length v' = length v
   \<and> st = (if length (takeWhile (roles_resolved u) names) = length names then SUCCESS else ERROR)
   \<and> (\<forall>j<length (takeWhile (roles_resolved u) names).
         portName (v' ! (i + j)) = fst (names ! j) \<and> canChangeMode (v' ! (i + j)))
   \<and> (length (takeWhile (roles_resolved u) names) < length names \<longrightarrow>
         (v' ! (i + length (takeWhile (roles_resolved u) names)))
           \<lparr>currentPowerRole := PortPowerRole_NONE, currentDataRole := PortDataRole_NONE\<rparr>
         = (v ! (i + length (takeWhile (roles_resolved u) names)))
           \<lparr>portName := fst (names ! length (takeWhile (roles_resolved u) names)),
            currentPowerRole := PortPowerRole_NONE, currentDataRole := PortDataRole_NONE\<rparr>)
   \<and> (\<forall>j. i + length (takeWhile (roles_resolved u) names) < j \<and> j < length v \<longrightarrow>
         v' ! j = v ! j)
   \<and> (\<forall>j<i. v' ! j = v ! j)"
proof (induction names arbitrary: i v)
  case Nil
  then show ?case by simp
next
  case (Cons port names)
  from Cons.prems(2) have i: "i < length v" by simp
  from Cons.prems(1) obtain ok p where
    r: "port_roles u (fst port) (snd port) (v ! i) = Inr (ok, p)"
    by (cases "port_roles u (fst port) (snd port) (v ! i)") auto
  have okr: "ok = roles_resolved u port"
    using port_roles_ok [OF r] by simp
  show ?case
  proof (cases ok)
    case False
    with Cons.prems(1) r have res: "st = ERROR" "v' = v[i := p]" by simp_all
    have nr: "\<not> roles_resolved u port"
      using okr False by simp
    from r False have "p\<lparr>currentPowerRole := PortPowerRole_NONE, currentDataRole := PortDataRole_NONE\<rparr>
       = (v ! i)\<lparr>portName := fst port, currentPowerRole := PortPowerRole_NONE,
           currentDataRole := PortDataRole_NONE\<rparr>"
      using port_roles_failed by simp
    then show ?thesis
      using i by (simp add: res nr)
  next
    case True
    with Cons.prems(1) r obtain p' where
      s: "port_rest u (fst port) (snd port) p = Inr p'"
      and rec: "ports_loop u names (Suc i) (v[i := p']) = Inr (st, v')"
      by (auto split: sum.splits)
    have k: "roles_resolved u port"
      using okr True by simp
    have nm: "portName p' = fst port" "canChangeMode p'"
      using port_rest_filled [OF s] port_roles_named [of u "fst port" "snd port" "v ! i" p] r True
      by simp_all
    have le: "Suc i + length names \<le> length (v[i := p'])"
      using Cons.prems(2) by simp
    note ih = Cons.IH [OF rec le]
    from ih have vi: "v' ! i = p'"
      using i by simp
    have l: "length v' = length v" using ih by simp
    have a: "\<forall>j<length (takeWhile (roles_resolved u) (port # names)).
         portName (v' ! (i + j)) = fst ((port # names) ! j) \<and> canChangeMode (v' ! (i + j))"
    proof (intro allI impI)
      fix j assume j: "j < length (takeWhile (roles_resolved u) (port # names))"
      show "portName (v' ! (i + j)) = fst ((port # names) ! j) \<and> canChangeMode (v' ! (i + j))"
      proof (cases j)
        case 0
        then show ?thesis using vi nm by simp
      next
        case (Suc j')
        with j have "j' < length (takeWhile (roles_resolved u) names)" by (simp add: k)
        with ih have "portName (v' ! (Suc i + j')) = fst (names ! j')
            \<and> canChangeMode (v' ! (Suc i + j'))" by blast
        then show ?thesis using Suc by simp
      qed
    qed
    have b: "\<forall>j. i + length (takeWhile (roles_resolved u) (port # names)) < j \<and> j < length v \<longrightarrow>
         v' ! j = v ! j"
      using ih by (auto simp: k)
    have c: "\<forall>j<i. v' ! j = v ! j"
      using ih by auto
    have d: "length (takeWhile (roles_resolved u) (port # names)) < length (port # names) \<longrightarrow>
         (v' ! (i + length (takeWhile (roles_resolved u) (port # names))))
           \<lparr>currentPowerRole := PortPowerRole_NONE, currentDataRole := PortDataRole_NONE\<rparr>
         = (v ! (i + length (takeWhile (roles_resolved u) (port # names))))
           \<lparr>portName := fst ((port # names) ! length (takeWhile (roles_resolved u) (port # names))),
            currentPowerRole := PortPowerRole_NONE, currentDataRole := PortDataRole_NONE\<rparr>"
      using ih by (auto simp: k)
    have e: "st = (if length (takeWhile (roles_resolved u) (port # names)) = length (port # names)
        then SUCCESS else ERROR)"
      using ih by (simp add: k)
    from l e a d b c show ?thesis by blast
  qed
qed


text \<open>
  Claim C3, as stated, fails: a role query that fails is fatal to the port status, as a
  failed enumeration is, and more than the one field is lost. On the first host the
  enumeration succeeds; when the power role of \<^verbatim>\<open>port0\<close> cannot be read, and likewise
  when it reads \<^verbatim>\<open>[dual]\<close> (the query returns \<^verbatim>\<open>UNRECOGNIZED_ROLE\<close>), the outcome is
  \<^verbatim>\<open>ERROR\<close> and the entry of \<^verbatim>\<open>port0\<close> has its name and nothing else: no data role,
  although that node reads \<^verbatim>\<open>[host]\<close>, no mode, no capability, no data status.
\<close>

theorem role_failure_counterexample:
  "fst (getTypeCPortNamesHelper [] (host_role None)) = SUCCESS
   \<and> getPortStatusHelper (host_role None) [] = Inr (ERROR, [port0_entry])
   \<and> fst (getCurrentRoleHelper ''port0'' True (powerRole PortPowerRole_NONE)
            (host_role (Some ''[dual]''))) = UNRECOGNIZED_ROLE
   \<and> getPortStatusHelper (host_role (Some ''[dual]'')) [] = Inr (ERROR, [port0_entry])"
  by (simp add: snap_defs host_role_def host0_def port0_entry_def string_defs k_defs)


text \<open>
  Claim C3, amended: a failed enumeration gives \<^verbatim>\<open>ERROR\<close> and an empty vector. After a
  successful enumeration the vector has one entry for each port, and the loop over the
  ports stops at the first port, in the order in which the map is gone through, one of
  whose three role queries does not return \<^verbatim>\<open>SUCCESS\<close> (an unreadable node or an
  unrecognized role): the ports before it are filled in, that port has its name and at
  most its power and data role and is otherwise as \<^verbatim>\<open>resize\<close> made it, the ports after
  it are as \<^verbatim>\<open>resize\<close> made them, and the outcome is \<^verbatim>\<open>ERROR\<close>. The outcome is
  \<^verbatim>\<open>SUCCESS\<close> exactly when there is no such port.
\<close>

theorem role_failure_stops_port_status:
  assumes "getPortStatusHelper u [] = Inr (st, v)"
  shows "(fst (getTypeCPortNamesHelper [] u) \<noteq> SUCCESS \<longrightarrow> st = ERROR \<and> v = [])
       \<and> (fst (getTypeCPortNamesHelper [] u) = SUCCESS \<longrightarrow>
           (let order = unordered_iteration u (snd (getTypeCPortNamesHelper [] u));
                k = length (takeWhile (roles_resolved u) order)
            in length v = length order
               \<and> st = (if k = length order then SUCCESS else ERROR)
               \<and> (\<forall>j<k. portName (v ! j) = fst (order ! j) \<and> canChangeMode (v ! j))
               \<and> (k < length order \<longrightarrow>
                    (v ! k)\<lparr>currentPowerRole := PortPowerRole_NONE,
                            currentDataRole := PortDataRole_NONE\<rparr>
                    = PortStatus_default\<lparr>portName := fst (order ! k)\<rparr>)
               \<and> (\<forall>j. k < j \<and> j < length order \<longrightarrow> v ! j = PortStatus_default)))"
proof (cases "fst (getTypeCPortNamesHelper [] u) = SUCCESS")
  case False
  then show ?thesis
    using getPortStatusHelper_failed [OF assms] by simp
next
  case True
  define order where "order = unordered_iteration u (snd (getTypeCPortNamesHelper [] u))"
  define k where "k = length (takeWhile (roles_resolved u) order)"
  have kl: "k \<le> length order"
    by (simp add: k_def length_takeWhile_le)
  have l: "ports_loop u order 0 (replicate (length order) PortStatus_default) = Inr (st, v)"
    using getPortStatusHelper_loop [OF assms True] by (simp add: order_def)
  have "0 + length order \<le> length (replicate (length order) PortStatus_default)"
    by simp
  note s = ports_loop_stops [OF l this, folded k_def]
  have 1: "length v = length order" using s by simp
  have 2: "st = (if k = length order then SUCCESS else ERROR)" using s by simp
  have 3: "\<forall>j<k. portName (v ! j) = fst (order ! j) \<and> canChangeMode (v ! j)"
    using s by simp
  have 4: "k < length order \<longrightarrow>
      (v ! k)\<lparr>currentPowerRole := PortPowerRole_NONE, currentDataRole := PortDataRole_NONE\<rparr>
      = PortStatus_default\<lparr>portName := fst (order ! k)\<rparr>"
    using s by (auto simp: PortStatus_default_def)
  have 5: "\<forall>j. k < j \<and> j < length order \<longrightarrow> v ! j = PortStatus_default"
    using s by auto
  show ?thesis
    using True 1 2 3 4 5 by (simp add: Let_def order_def [symmetric] k_def [symmetric])
qed


theorem role_failure_stops_port_status_witness:
  "getPortStatusHelper (host_two_ports None) [] = Inr (ERROR, two_ports_entries)
   \<and> unordered_iteration (host_two_ports None)
        (snd (getTypeCPortNamesHelper [] (host_two_ports None)))
      = [(''port1'', False), (''port0'', True)]
   \<and> portName (two_ports_entries ! 0) = ''port1'' \<and> canChangeMode (two_ports_entries ! 0)
   \<and> (two_ports_entries ! 1)
        \<lparr>currentPowerRole := PortPowerRole_NONE, currentDataRole := PortDataRole_NONE\<rparr>
      = PortStatus_default\<lparr>portName := ''port0''\<rparr>"
proof -
  have a: "getPortStatusHelper (host_two_ports None) [] = Inr (ERROR, two_ports_entries)"
    by (simp add: snap_defs host_defs two_ports_entries_def string_defs k_defs)
  have t: "fst (getTypeCPortNamesHelper [] (host_two_ports None)) = SUCCESS"
    by (simp add: snap_defs host_defs string_defs k_defs)
  have ord: "unordered_iteration (host_two_ports None)
        (snd (getTypeCPortNamesHelper [] (host_two_ports None)))
      = [(''port1'', False), (''port0'', True)]"
    by (simp add: snap_defs host_defs string_defs k_defs)
  have k: "roles_resolved (host_two_ports None) (''port1'', False)"
    "\<not> roles_resolved (host_two_ports None) (''port0'', True)"
    by (simp_all add: roles_resolved_def snap_defs host_defs string_defs k_defs)
  from role_failure_stops_port_status [OF a] t
  show ?thesis
    by (simp add: Let_def ord k a)
qed


subsection \<open>A charger seen through its warnings only\<close>

text \<open>
  Claim C5: a port for which the compliance step reads warnings while role detection
  left its power role at \<^verbatim>\<open>NONE\<close> appears in the snapshot as a connected sink (mode
  \<^verbatim>\<open>UFP\<close>, power role \<^verbatim>\<open>SINK\<close>, data role \<^verbatim>\<open>NONE\<close>, power brick \<^verbatim>\<open>CONNECTED\<close>); a port
  whose detected power role is not \<^verbatim>\<open>NONE\<close> keeps its detected mode, roles and power
  brick status. (Before the compliance step every warning list is empty, so the
  warnings of a port after that step are those of its reasons file.)
\<close>

theorem compliance_only_attachment:
  assumes q: "queryVersionHelper u [] = Inr (u', snap)"
    and g: "getPortStatusHelper u [] = Inr (st, detected)"
    and i: "i < length snap"
  shows "(port_file_warnings u (portName (detected ! i)) \<noteq> []
          \<and> currentPowerRole (detected ! i) = PortPowerRole_NONE \<longrightarrow>
            currentMode (snap ! i) = PortMode_UFP
            \<and> currentPowerRole (snap ! i) = PortPowerRole_SINK
            \<and> currentDataRole (snap ! i) = PortDataRole_NONE
            \<and> powerBrickStatus (snap ! i) = PowerBrickStatus_CONNECTED)
       \<and> (currentPowerRole (detected ! i) \<noteq> PortPowerRole_NONE \<longrightarrow>
            currentMode (snap ! i) = currentMode (detected ! i)
            \<and> currentPowerRole (snap ! i) = currentPowerRole (detected ! i)
            \<and> currentDataRole (snap ! i) = currentDataRole (detected ! i)
            \<and> powerBrickStatus (snap ! i) = powerBrickStatus (detected ! i))"
proof -
  from queryVersionHelper_steps [OF q] g obtain st2 u2 v2 st3 u3 v3 where
    m: "queryMoistureDetectionStatus u detected = Inr (st2, u2, v2)"
    and p: "queryPowerTransferStatus u2 v2 = Inr (st3, u3, v3)"
    and s: "queryUsbDataSession u3 (snd (queryNonCompliantChargerStatus u3 v3)) = Inr snap"
    by auto
  define v4 where "v4 = snd (queryNonCompliantChargerStatus u3 v3)"
  have n: "queryNonCompliantChargerStatus u3 v3 = (SUCCESS, v4)"
    by (simp add: v4_def queryNonCompliantChargerStatus_def)
  have s': "queryUsbDataSession u3 v4 = Inr snap" using s by (simp add: v4_def)
  note main = compliance_step_roles [OF g m p n s' i]
  have r32: "map role_fields v3 = map role_fields v2" using power_frame [OF p] by simp
  have r21: "map role_fields v2 = map role_fields detected" using moisture_frame [OF m] by simp
  have l5: "length snap = length v4" using session_keeps(1) [OF s'] by (rule map_eq_imp_length_eq)
  have l4: "length v4 = length v3" by (simp add: v4_def queryNonCompliantChargerStatus_def)
  have l3: "length v3 = length v2" using r32 by (rule map_eq_imp_length_eq)
  have l2: "length v2 = length detected" using r21 by (rule map_eq_imp_length_eq)
  have i1: "i < length detected" "i < length v2" "i < length v3" using i l5 l4 l3 l2 by simp_all
  have r3: "role_fields (v3 ! i) = role_fields (detected ! i)"
    using map_nth_eq [OF r32 i1(2)] map_nth_eq [OF r21 i1(1)] by simp
  have "complianceWarnings (detected ! i) = []"
    using getPortStatusHelper_warnings [OF g] i1(1) by simp
  with r3 have e: "complianceWarnings (v3 ! i) = []" and nm: "portName (v3 ! i) = portName (detected ! i)"
    by (simp_all add: role_fields_def)
  have fr: "u3\<lparr>mI2cClientPath := [], enabledPath := []\<rparr> = u\<lparr>mI2cClientPath := [], enabledPath := []\<rparr>"
    using power_frame [OF p] moisture_frame [OF m] by simp
  have "complianceWarnings (v4 ! i) = port_file_warnings u (portName (detected ! i))"
    using i1(3) noncompliant_port_warnings [OF e, of u3] nm port_file_warnings_frame [OF fr]
    by (simp add: v4_def queryNonCompliantChargerStatus_def)
  with main show ?thesis by simp
qed


theorem compliance_only_attachment_witness:
  "port_file_warnings host_charger ''port0''
     = [ComplianceWarning_BC_1_2, ComplianceWarning_MISSING_RP]
   \<and> currentMode (snapshot_of host_charger ! 0) = PortMode_UFP
   \<and> currentPowerRole (snapshot_of host_charger ! 0) = PortPowerRole_SINK
   \<and> currentDataRole (snapshot_of host_charger ! 0) = PortDataRole_NONE
   \<and> powerBrickStatus (snapshot_of host_charger ! 0) = PowerBrickStatus_CONNECTED
   \<and> currentPowerRole (snapshot_of host0 ! 0) = PortPowerRole_SOURCE"
proof -
  have w: "port_file_warnings host_charger ''port0''
     = [ComplianceWarning_BC_1_2, ComplianceWarning_MISSING_RP]"
    by (simp add: port_file_warnings_def ReadFileToString_def reasons_bc12_missing_rp
        host_defs string_defs k_defs)
  have "\<exists>u' s. queryVersionHelper host_charger [] = Inr (u', s) \<and> length s = 1"
    by (simp add: op_defs host_defs)
  then obtain u' s where q: "queryVersionHelper host_charger [] = Inr (u', s)"
    and "length s = 1"
    by blast
  then have l: "0 < length s" by simp
  have "\<exists>d. getPortStatusHelper host_charger [] = Inr (SUCCESS, d)
          \<and> portName (d ! 0) = ''port0'' \<and> currentPowerRole (d ! 0) = PortPowerRole_NONE"
    by (simp add: snap_defs string_defs k_defs host_defs)
  then obtain d where g: "getPortStatusHelper host_charger [] = Inr (SUCCESS, d)"
    and d: "portName (d ! 0) = ''port0''" "currentPowerRole (d ! 0) = PortPowerRole_NONE"
    by auto
  have s: "snapshot_of host_charger = s"
    by (simp add: snapshot_of_def q)
  have "\<exists>u' s. queryVersionHelper host0 [] = Inr (u', s) \<and> length s = 1"
    by (simp add: op_defs host_defs)
  then obtain u0 s0 where q0: "queryVersionHelper host0 [] = Inr (u0, s0)"
    and "length s0 = 1"
    by blast
  then have l0: "0 < length s0" by simp
  have "\<exists>d. getPortStatusHelper host0 [] = Inr (SUCCESS, d)
          \<and> currentPowerRole (d ! 0) = PortPowerRole_SOURCE"
    by (simp add: snap_defs string_defs k_defs host_defs)
  then obtain d0 where g0: "getPortStatusHelper host0 [] = Inr (SUCCESS, d0)"
    and d0: "currentPowerRole (d0 ! 0) = PortPowerRole_SOURCE"
    by auto
  have s0: "snapshot_of host0 = s0"
    by (simp add: snapshot_of_def q0)
  show ?thesis
    using compliance_only_attachment [OF q g l] compliance_only_attachment [OF q0 g0 l0]
      w d d0 by (simp add: s s0)
qed

subsection \<open>Data disabled by force\<close>






subsection \<open>Outcomes of the operations\<close>


























end
